theory Spec2Isabelle
  imports Main "HOL-Library.AList"
begin

section \<open>Python values\<close>

text \<open>
  The objects that \<^verbatim>\<open>src/pyscaffold/structure.py\<close> handles. A function object is
  named by a string; what a call of it does is given by the runtime below, so function
  objects can be compared (Python compares them by identity) and a structure is plain
  data. \<open>CallableTemplate f t\<close> is an instance of a subclass of \<^verbatim>\<open>string.Template\<close>
  that also defines \<^verbatim>\<open>__call__\<close>: the one kind of object for which both tests of
  \<^verbatim>\<open>reify_content\<close> succeed. A path is the list of the segments it was joined from
  (\<^verbatim>\<open>Path(a) / b / c\<close> is \<open>[a, b, c]\<close>); normalising the segments is left to whoever
  consumes the path. A dictionary is an association list in insertion order; its keys are
  strings, as in \<^verbatim>\<open>Structure = Dict[str, ...]\<close>. The characters of a string and
  the bytes of a bytes object are both \<open>char\<close>, which has 256 values.
\<close>

datatype error =
    TypeError
  | ValueError
  | KeyError string
  | RuntimeError string
  | OSError string
  | NotAStructure

datatype obj =
    PNone
  | PBool bool
  | PInt int
  | PStr string
  | PBytes "char list"
  | PPath "string list"
  | Function string
  | Template string
  | CallableTemplate string string
  | Tuple "obj list"
  | Dict "(string \<times> obj) list"

type_synonym pydict = "(string \<times> obj) list"

text \<open>Truth value of an object, as \<^verbatim>\<open>if x:\<close> and \<^verbatim>\<open>x or y\<close> test it.\<close>

fun truthy :: "obj \<Rightarrow> bool" where
  "truthy PNone = False"
| "truthy (PBool b) = b"
| "truthy (PInt i) = (i \<noteq> 0)"
| "truthy (PStr s) = (s \<noteq> [])"
| "truthy (PBytes bs) = (bs \<noteq> [])"
| "truthy (PPath p) = True"
| "truthy (Function f) = True"
| "truthy (Template t) = True"
| "truthy (CallableTemplate f t) = True"
| "truthy (Tuple xs) = (xs \<noteq> [])"
| "truthy (Dict kvs) = (kvs \<noteq> [])"

text \<open>\<^verbatim>\<open>a or b\<close>\<close>

definition py_or :: "obj \<Rightarrow> obj \<Rightarrow> obj" where
  "py_or a b = (if truthy a then a else b)"

text \<open>\<^verbatim>\<open>d.get(k, default)\<close>; \<^verbatim>\<open>d.get(k)\<close> is \<open>dict_get d k PNone\<close>.\<close>

definition dict_get :: "pydict \<Rightarrow> string \<Rightarrow> obj \<Rightarrow> obj" where
  "dict_get d k dflt = (case map_of d k of None \<Rightarrow> dflt | Some v \<Rightarrow> v)"

text \<open>\<^verbatim>\<open>callable(x)\<close>, \<^verbatim>\<open>isinstance(x, tuple)\<close>, \<^verbatim>\<open>isinstance(x, dict)\<close>,
  \<^verbatim>\<open>isinstance(x, Template)\<close>\<close>

fun callable :: "obj \<Rightarrow> bool" where
  "callable (Function f) = True"
| "callable (CallableTemplate f t) = True"
| "callable _ = False"

fun isinstance_tuple :: "obj \<Rightarrow> bool" where
  "isinstance_tuple (Tuple xs) = True"
| "isinstance_tuple _ = False"

fun isinstance_dict :: "obj \<Rightarrow> bool" where
  "isinstance_dict (Dict kvs) = True"
| "isinstance_dict _ = False"

fun isinstance_Template :: "obj \<Rightarrow> bool" where
  "isinstance_Template (Template t) = True"
| "isinstance_Template (CallableTemplate f t) = True"
| "isinstance_Template _ = False"

text \<open>\<^verbatim>\<open>Path(x)\<close> accepts a string or a path and raises \<^verbatim>\<open>TypeError\<close> on anything
  else; \<^verbatim>\<open>prefix / name\<close> appends a segment.\<close>

fun Path :: "obj \<Rightarrow> error + string list" where
  "Path (PStr s) = Inr [s]"
| "Path (PPath p) = Inr p"
| "Path _ = Inl TypeError"

definition joinpath :: "string list \<Rightarrow> string \<Rightarrow> string list" where
  "joinpath prefix name = prefix @ [name]"

text \<open>Tuple unpacking \<^verbatim>\<open>a, b = t\<close>: a tuple of any other length raises
  \<^verbatim>\<open>ValueError\<close>.\<close>

fun unpack2 :: "obj \<Rightarrow> error + (obj \<times> obj)" where
  "unpack2 (Tuple [a, b]) = Inr (a, b)"
| "unpack2 (Tuple xs) = Inl ValueError"
| "unpack2 x = Inl TypeError"


section \<open>The runtime: collaborators outside \<^verbatim>\<open>structure.py\<close>\<close>

text \<open>
  Calls leave \<^verbatim>\<open>structure.py\<close> in three ways: an object is called (a content
  function with \<open>[opts]\<close>, a file operation with \<open>[path, content, opts]\<close>),
  \<^verbatim>\<open>file_system.create_directory\<close> is called, and \<^verbatim>\<open>safe_substitute\<close> applies the
  builtin \<^verbatim>\<open>str\<close> to an option value. They are parameters of the model. A call runs
  in a world \<open>'w\<close> (the file system and whatever else the callee can see), and returns an
  exception or a value together with the world it leaves behind: an exception does not undo
  what was written before it. The callees do not mutate \<^verbatim>\<open>opts\<close> or the structure.
\<close>

record 'w runtime =
  call :: "string \<Rightarrow> obj list \<Rightarrow> 'w \<Rightarrow> (error + obj) \<times> 'w"
  create_directory :: "obj \<Rightarrow> obj \<Rightarrow> obj \<Rightarrow> 'w \<Rightarrow> (error + obj) \<times> 'w"
  py_str :: "obj \<Rightarrow> string"

text \<open>\<^verbatim>\<open>f(*args)\<close>: calling an object that is not callable raises \<^verbatim>\<open>TypeError\<close>.\<close>

fun py_call :: "'w runtime \<Rightarrow> obj \<Rightarrow> obj list \<Rightarrow> 'w \<Rightarrow> (error + obj) \<times> 'w" where
  "py_call rt (Function f) args w = call rt f args w"
| "py_call rt (CallableTemplate f t) args w = call rt f args w"
| "py_call rt x args w = (Inl TypeError, w)"


section \<open>\<^verbatim>\<open>string.Template.safe_substitute\<close>\<close>

text \<open>
  The standard library's \<^verbatim>\<open>Template\<close> scans for \<^verbatim>\<open>$\<close>. After it, a second
  \<^verbatim>\<open>$\<close> is an escape; an identifier \<^verbatim>\<open>[_a-zA-Z][_a-zA-Z0-9]*\<close>, bare or in braces,
  is a placeholder; anything else leaves the \<^verbatim>\<open>$\<close> alone. \<^verbatim>\<open>safe_substitute\<close>
  replaces a placeholder by \<^verbatim>\<open>str(mapping[name])\<close> and catches the \<^verbatim>\<open>KeyError\<close>
  of a missing name by returning the matched text.
\<close>

definition id_start :: "char \<Rightarrow> bool" where
  "id_start c = (c \<in> set ''_abcdefghijklmnopqrstuvwxyzABCDEFGHIJKLMNOPQRSTUVWXYZ'')"

definition id_char :: "char \<Rightarrow> bool" where
  "id_char c = (id_start c \<or> c \<in> set ''0123456789'')"

definition named_id :: "string \<Rightarrow> (string \<times> string) option" where
  "named_id cs =
    (case cs of
       [] \<Rightarrow> None
     | d # ds \<Rightarrow> if id_start d then Some (takeWhile id_char cs, dropWhile id_char cs) else None)"

definition braced_id :: "string \<Rightarrow> (string \<times> string) option" where
  "braced_id cs =
    (case cs of
       [] \<Rightarrow> None
     | b # ds \<Rightarrow>
        if b \<noteq> CHR ''{'' then None
        else (case named_id ds of
                None \<Rightarrow> None
              | Some (name, rest) \<Rightarrow>
                 (case rest of
                    [] \<Rightarrow> None
                  | e # rest' \<Rightarrow> if e = CHR ''}'' then Some (name, rest') else None)))"

definition convert :: "(obj \<Rightarrow> string) \<Rightarrow> pydict \<Rightarrow> string \<Rightarrow> string \<Rightarrow> string" where
  "convert str_of mapping named matched =
    (case map_of mapping named of Some v \<Rightarrow> str_of v | None \<Rightarrow> matched)"

lemma named_id_rest: "named_id cs = Some (name, rest) \<Longrightarrow> rest = dropWhile id_char cs"
  by (cases cs) (simp_all add: named_id_def split: if_splits)

lemma named_id_length: "named_id cs = Some (name, rest) \<Longrightarrow> length rest \<le> length cs"
  by (drule named_id_rest) (simp add: length_dropWhile_le)

lemma braced_id_length: "braced_id cs = Some (name, rest) \<Longrightarrow> length rest \<le> length cs"
  by (auto simp: braced_id_def split: list.splits if_splits option.splits
      dest!: named_id_length)

function safe_substitute :: "(obj \<Rightarrow> string) \<Rightarrow> string \<Rightarrow> pydict \<Rightarrow> string" where
  "safe_substitute str_of [] mapping = []"
| "safe_substitute str_of (c # cs) mapping =
    (if c \<noteq> CHR ''$'' then c # safe_substitute str_of cs mapping
     else if cs \<noteq> [] \<and> hd cs = CHR ''$'' then CHR ''$'' # safe_substitute str_of (tl cs) mapping
     else (case named_id cs of
             Some (name, rest) \<Rightarrow>
               convert str_of mapping name (CHR ''$'' # name) @ safe_substitute str_of rest mapping
           | None \<Rightarrow>
              (case braced_id cs of
                 Some (name, rest) \<Rightarrow>
                   convert str_of mapping name (''${'' @ name @ ''}'')
                     @ safe_substitute str_of rest mapping
               | None \<Rightarrow> CHR ''$'' # safe_substitute str_of cs mapping)))"
  by pat_completeness auto
termination
  by (relation "measure (\<lambda>(s, t, m). length t)")
     (auto dest: named_id_length braced_id_length simp: less_Suc_eq_le)


section \<open>\<^verbatim>\<open>structure.py\<close>\<close>

text \<open>The imported operations \<^verbatim>\<open>create\<close>, \<^verbatim>\<open>NO_OVERWRITE = no_overwrite()\<close> and
  \<^verbatim>\<open>SKIP_ON_UPDATE = skip_on_update()\<close> are three function objects.\<close>

definition create :: obj where
  "create = Function ''create''"

definition NO_OVERWRITE :: obj where
  "NO_OVERWRITE = Function ''no_overwrite()''"

definition SKIP_ON_UPDATE :: obj where
  "SKIP_ON_UPDATE = Function ''skip_on_update()''"

fun structure_leaf :: "obj \<Rightarrow> obj" where
  "structure_leaf (Tuple xs) = Tuple xs"
| "structure_leaf contents = Tuple [contents, create]"

definition reify_content :: "'w runtime \<Rightarrow> obj \<Rightarrow> pydict \<Rightarrow> 'w \<Rightarrow> (error + obj) \<times> 'w" where
  "reify_content rt content opts w =
    (if callable content then py_call rt content [Dict opts] w
     else (case content of
             Template t \<Rightarrow> (Inr (PStr (safe_substitute (py_str rt) t opts)), w)
           | CallableTemplate f t \<Rightarrow> (Inr (PStr (safe_substitute (py_str rt) t opts)), w)
           | _ \<Rightarrow> (Inr content, w)))"

text \<open>
  \<^verbatim>\<open>create_structure\<close> (source lines 116 to 157). \<open>walk\<close> is its \<^verbatim>\<open>for\<close> loop
  over \<^verbatim>\<open>struct.items()\<close>: it carries the loop's variables \<^verbatim>\<open>prefix\<close>,
  \<^verbatim>\<open>update\<close>, \<^verbatim>\<open>pretend\<close> and the dictionary \<^verbatim>\<open>changed\<close> built so far, and the
  assignment \<^verbatim>\<open>changed[name] = v\<close> is \<open>AList.update name v changed\<close>.
\<close>

function create_structure ::
    "'w runtime \<Rightarrow> pydict \<Rightarrow> pydict \<Rightarrow> obj \<Rightarrow> 'w \<Rightarrow> (error + pydict \<times> pydict) \<times> 'w"
  and walk ::
    "'w runtime \<Rightarrow> pydict \<Rightarrow> pydict \<Rightarrow> string list \<Rightarrow> obj \<Rightarrow> obj \<Rightarrow> pydict \<Rightarrow> 'w
      \<Rightarrow> (error + pydict) \<times> 'w"
where
  "create_structure rt struct opts prefix w =
    (let update = py_or (dict_get opts ''update'' PNone) (dict_get opts ''force'' PNone);
         pretend = dict_get opts ''pretend'' PNone
     in case (if prefix = PNone
              then (let prefix' = dict_get opts ''project_path'' (PStr ''.'')
                    in case create_directory rt prefix' update pretend w of
                         (Inl e, w') \<Rightarrow> (Inl e, w')
                       | (Inr r, w') \<Rightarrow> (Inr prefix', w'))
              else (Inr prefix, w)) of
          (Inl e, w1) \<Rightarrow> (Inl e, w1)
        | (Inr prefix1, w1) \<Rightarrow>
           (case Path prefix1 of
              Inl e \<Rightarrow> (Inl e, w1)
            | Inr p \<Rightarrow>
               (case walk rt struct opts p update pretend [] w1 of
                  (Inl e, w2) \<Rightarrow> (Inl e, w2)
                | (Inr changed, w2) \<Rightarrow> (Inr (changed, opts), w2))))"
| "walk rt [] opts prefix update pretend changed w = (Inr changed, w)"
| "walk rt ((name, node) # rest) opts prefix update pretend changed w =
    (let path = joinpath prefix name
     in case node of
          Dict sub \<Rightarrow>
            (case create_directory rt (PPath path) update pretend w of
               (Inl e, w1) \<Rightarrow> (Inl e, w1)
             | (Inr r, w1) \<Rightarrow>
                (case create_structure rt sub opts (PPath path) w1 of
                   (Inl e, w2) \<Rightarrow> (Inl e, w2)
                 | (Inr (sub_changed, opts'), w2) \<Rightarrow>
                     walk rt rest opts prefix update pretend
                       (AList.update name (Dict sub_changed) changed) w2))
        | _ \<Rightarrow>
            (case unpack2 (structure_leaf node) of
               Inl e \<Rightarrow> (Inl e, w)
             | Inr (template, file_op) \<Rightarrow>
                (case reify_content rt template opts w of
                   (Inl e, w1) \<Rightarrow> (Inl e, w1)
                 | (Inr content, w1) \<Rightarrow>
                    (case py_call rt file_op [PPath path, content, Dict opts] w1 of
                       (Inl e, w2) \<Rightarrow> (Inl e, w2)
                     | (Inr r, w2) \<Rightarrow>
                         walk rt rest opts prefix update pretend
                           (if truthy r then AList.update name content changed else changed)
                           w2))))"
  by pat_completeness auto
termination
  by (relation "measure (\<lambda>x. case x of
          Inl (rt, struct, opts, prefix, w) \<Rightarrow> 2 * size_list (size_prod (\<lambda>k. 0) size) struct + 1
        | Inr (rt, items, opts, prefix, update, pretend, changed, w) \<Rightarrow>
            2 * size_list (size_prod (\<lambda>k. 0) size) items)")
     auto

declare create_structure.simps [simp del]

text \<open>
  \<^verbatim>\<open>define_structure\<close> (source lines 53 to 97). \<^verbatim>\<open>templates.get_template\<close> and
  the content functions of \<^verbatim>\<open>templates\<close> are outside \<^verbatim>\<open>structure.py\<close>.
  \<^verbatim>\<open>get_template(name)\<close> returns the \<^verbatim>\<open>string.Template\<close> of a template file; the
  text of each file is the parameter \<open>text\<close>. The content functions are function
  objects. \<^verbatim>\<open>opts["package"]\<close> raises \<^verbatim>\<open>KeyError\<close> when the key is missing. With a package that is not a string the
  Python dictionary has a key that is not a string; the model has no term for it and
  answers \<open>NotAStructure\<close>.
\<close>

definition templates_init :: obj where
  "templates_init = Function ''templates.init''"

definition templates_license :: obj where
  "templates_license = Function ''templates.license''"

definition templates_setup_cfg :: obj where
  "templates_setup_cfg = Function ''templates.setup_cfg''"

definition get_template :: "(string \<Rightarrow> string) \<Rightarrow> string \<Rightarrow> obj" where
  "get_template text name = Template (text name)"

definition define_structure :: "(string \<Rightarrow> string) \<Rightarrow> obj \<Rightarrow> pydict \<Rightarrow> error + pydict \<times> pydict" where
  "define_structure text prev opts =
    (case map_of opts ''package'' of
       None \<Rightarrow> Inl (KeyError ''package'')
     | Some (PStr package) \<Rightarrow>
         Inr ([(''.gitignore'', Tuple [get_template text ''gitignore'', NO_OVERWRITE]),
               (''src'', Dict
                 [(package, Dict
                    [(''__init__.py'', templates_init),
                     (''skeleton.py'', Tuple [get_template text ''skeleton'', SKIP_ON_UPDATE])])]),
               (''tests'', Dict
                 [(''conftest.py'', Tuple [get_template text ''conftest_py'', NO_OVERWRITE]),
                  (''test_skeleton.py'', Tuple [get_template text ''test_skeleton'', SKIP_ON_UPDATE])]),
               (''docs'', Dict
                 [(''conf.py'', get_template text ''sphinx_conf''),
                  (''authors.rst'', get_template text ''sphinx_authors''),
                  (''index.rst'', Tuple [get_template text ''sphinx_index'', NO_OVERWRITE]),
                  (''license.rst'', get_template text ''sphinx_license''),
                  (''changelog.rst'', get_template text ''sphinx_changelog''),
                  (''Makefile'', get_template text ''sphinx_makefile''),
                  (''_static'', Dict [(''.gitignore'', get_template text ''gitignore_empty'')])]),
               (''README.rst'', Tuple [get_template text ''readme'', NO_OVERWRITE]),
               (''AUTHORS.rst'', Tuple [get_template text ''authors'', NO_OVERWRITE]),
               (''LICENSE.txt'', Tuple [templates_license, NO_OVERWRITE]),
               (''CHANGELOG.rst'', Tuple [get_template text ''changelog'', NO_OVERWRITE]),
               (''setup.py'', get_template text ''setup_py''),
               (''setup.cfg'', Tuple [templates_setup_cfg, NO_OVERWRITE]),
               (''.coveragerc'', Tuple [get_template text ''coveragerc'', NO_OVERWRITE])],
              opts)
     | Some other \<Rightarrow> Inl NotAStructure)"


section \<open>\<^verbatim>\<open>extensions/external_generators.py\<close>\<close>

text \<open>\<^verbatim>\<open>ExternalGenerators.activate(self, actions)\<close> (source lines 19 and 20).\<close>

definition activate :: "obj \<Rightarrow> obj \<Rightarrow> error + obj" where
  "activate self actions = Inl (RuntimeError ''Implemented but never called!'')"


section \<open>Observing the calls\<close>

text \<open>
  To say which calls a run makes, a runtime is wrapped so that its world carries a log:
  every call of \<^verbatim>\<open>create_directory\<close> and of an object appends its arguments and then
  does what the wrapped runtime does.
\<close>

datatype event =
    DirCall obj obj obj
  | ObjCall string "obj list"

definition logged :: "'w runtime \<Rightarrow> ('w \<times> event list) runtime" where
  "logged rt =
    \<lparr> call = (\<lambda>f args (w, tr).
         case call rt f args w of (r, w') \<Rightarrow> (r, (w', tr @ [ObjCall f args]))),
      create_directory = (\<lambda>path update pretend (w, tr).
         case create_directory rt path update pretend w of
           (r, w') \<Rightarrow> (r, (w', tr @ [DirCall path update pretend]))),
      py_str = py_str rt \<rparr>"


section \<open>An example runtime\<close>

text \<open>
  A small file system: the files with their contents and the directories. The three file
  operations live in \<^verbatim>\<open>pyscaffold/operations.py\<close> and \<^verbatim>\<open>create_directory\<close> in
  \<^verbatim>\<open>pyscaffold/file_system.py\<close>, neither of which is among the sources.
\<close>

record disk =
  files :: "(string list \<times> obj) list"
  dirs :: "string list list"

text \<open>Modelled from the spec: \<^verbatim>\<open>operations.create\<close> is missing. Section 4.2:
  it writes the content unconditionally, or simulates the write when \<^verbatim>\<open>pretend\<close> is
  set, and returns true unless the content is \<^verbatim>\<open>None\<close>.\<close>

definition op_create :: "string list \<Rightarrow> obj \<Rightarrow> pydict \<Rightarrow> disk \<Rightarrow> (error + obj) \<times> disk" where
  "op_create path content opts d =
    (if content = PNone then (Inr (PBool False), d)
     else if truthy (dict_get opts ''pretend'' PNone) then (Inr (PBool True), d)
     else (Inr (PBool True),
           d\<lparr>files := AList.update path content (files d),
             dirs := List.insert (butlast path) (dirs d)\<rparr>))"

text \<open>Modelled from the spec: \<^verbatim>\<open>operations.no_overwrite\<close> is missing. Section 4.2:
  if the target exists it returns false and writes nothing, otherwise it behaves like
  \<^verbatim>\<open>create\<close>.\<close>

definition op_no_overwrite :: "string list \<Rightarrow> obj \<Rightarrow> pydict \<Rightarrow> disk \<Rightarrow> (error + obj) \<times> disk" where
  "op_no_overwrite path content opts d =
    (if map_of (files d) path \<noteq> None then (Inr (PBool False), d)
     else op_create path content opts d)"

text \<open>Modelled from the spec: \<^verbatim>\<open>operations.skip_on_update\<close> is missing. Section 4.2:
  if the options mark an update and the target exists it returns false and skips,
  otherwise it behaves like \<^verbatim>\<open>create\<close>.\<close>

definition op_skip_on_update :: "string list \<Rightarrow> obj \<Rightarrow> pydict \<Rightarrow> disk \<Rightarrow> (error + obj) \<times> disk" where
  "op_skip_on_update path content opts d =
    (if truthy (dict_get opts ''update'' PNone) \<and> map_of (files d) path \<noteq> None
     then (Inr (PBool False), d)
     else op_create path content opts d)"

text \<open>Modelled from the spec: \<^verbatim>\<open>file_system.create_directory\<close> is missing. Section 6:
  it is idempotent and does not touch the disk when \<^verbatim>\<open>pretend\<close> is set.\<close>

definition fs_create_directory :: "obj \<Rightarrow> obj \<Rightarrow> obj \<Rightarrow> disk \<Rightarrow> (error + obj) \<times> disk" where
  "fs_create_directory path update pretend d =
    (case Path path of
       Inl e \<Rightarrow> (Inl e, d)
     | Inr p \<Rightarrow>
        if truthy pretend then (Inr PNone, d)
        else (Inr PNone, d\<lparr>dirs := List.insert p (dirs d)\<rparr>))"

text \<open>The example runtime knows the three file operations and one content function,
  \<^verbatim>\<open>lambda opts: opts["package"]\<close>, under the name \<open>package_name\<close>.\<close>

definition example_call :: "string \<Rightarrow> obj list \<Rightarrow> disk \<Rightarrow> (error + obj) \<times> disk" where
  "example_call f args d =
    (case args of
       [PPath path, content, Dict opts] \<Rightarrow>
         if f = ''create'' then op_create path content opts d
         else if f = ''no_overwrite()'' then op_no_overwrite path content opts d
         else if f = ''skip_on_update()'' then op_skip_on_update path content opts d
         else (Inl TypeError, d)
     | [Dict opts] \<Rightarrow>
         if f = ''package_name''
         then (case map_of opts ''package'' of
                 None \<Rightarrow> (Inl (KeyError ''package''), d)
               | Some v \<Rightarrow> (Inr v, d))
         else (Inl TypeError, d)
     | _ \<Rightarrow> (Inl TypeError, d))"

fun example_str :: "obj \<Rightarrow> string" where
  "example_str (PStr s) = s"
| "example_str PNone = ''None''"
| "example_str (PBool b) = (if b then ''True'' else ''False'')"
| "example_str x = ''<object>''"

definition example_rt :: "disk runtime" where
  "example_rt =
    \<lparr> call = example_call, create_directory = fs_create_directory, py_str = example_str \<rparr>"

definition empty_disk :: disk where
  "empty_disk = \<lparr> files = [], dirs = [] \<rparr>"


section \<open>Notions used to state the properties\<close>

text \<open>The files of a structure with the path of each below the root, in the order of
  the walk, and the file operation that \<^verbatim>\<open>create_structure\<close> takes for a leaf
  (\<^verbatim>\<open>template, file_op = structure_leaf(node)\<close>, source line 152).\<close>

fun leaves_of :: "string list \<Rightarrow> obj \<Rightarrow> (string list \<times> obj) list"
  and leaves_in :: "string list \<Rightarrow> pydict \<Rightarrow> (string list \<times> obj) list" where
  "leaves_of path (Dict kvs) = leaves_in path kvs"
| "leaves_of path node = [(path, node)]"
| "leaves_in path [] = []"
| "leaves_in path ((name, node) # rest) =
    leaves_of (joinpath path name) node @ leaves_in path rest"

definition file_op_of :: "obj \<Rightarrow> error + obj" where
  "file_op_of node =
    (case unpack2 (structure_leaf node) of
       Inl e \<Rightarrow> Inl e
     | Inr (template, file_op) \<Rightarrow> Inr file_op)"


text \<open>A name that \<^verbatim>\<open>Template\<close>'s pattern \<^verbatim>\<open>[_a-z][_a-z0-9]*\<close> (matched ignoring
  case) accepts as a whole.\<close>

definition is_identifier :: "string \<Rightarrow> bool" where
  "is_identifier name = (name \<noteq> [] \<and> id_start (hd name) \<and> list_all id_char name)"

text \<open>The first lines of \<^verbatim>\<open>create_structure\<close> (source lines 136 to 142) as one
  step: the root directory is created on the outermost call, and the prefix becomes a
  path.\<close>

definition enter :: "'w runtime \<Rightarrow> pydict \<Rightarrow> obj \<Rightarrow> 'w \<Rightarrow> (error + string list) \<times> 'w" where
  "enter rt opts prefix w =
    (if prefix = PNone
     then (case create_directory rt (dict_get opts ''project_path'' (PStr ''.''))
                  (py_or (dict_get opts ''update'' PNone) (dict_get opts ''force'' PNone))
                  (dict_get opts ''pretend'' PNone) w of
             (Inl e, w') \<Rightarrow> (Inl e, w')
           | (Inr r, w') \<Rightarrow> (Path (dict_get opts ''project_path'' (PStr ''.'')), w'))
     else (Path prefix, w))"

text \<open>A structure whose dictionaries have no key twice, at any depth: every Python
  dictionary is one.\<close>

fun wf_node :: "obj \<Rightarrow> bool" and wf_struct :: "pydict \<Rightarrow> bool" where
  "wf_node (Dict kvs) = wf_struct kvs"
| "wf_node node = True"
| "wf_struct [] = True"
| "wf_struct ((name, node) # rest) = (name \<notin> fst ` set rest \<and> wf_node node \<and> wf_struct rest)"

text \<open>
  The changed tree mirrors the structure: on every level its keys are distinct keys of
  the structure, and under the name of every directory of the structure it has a
  dictionary that mirrors that directory. What stands under the name of a file is the
  content of the file.
\<close>

definition keys_within :: "pydict \<Rightarrow> pydict \<Rightarrow> bool" where
  "keys_within struct changed =
    (distinct (map fst changed) \<and> set (map fst changed) \<subseteq> set (map fst struct))"

fun entry_mirrors :: "obj \<Rightarrow> obj option \<Rightarrow> bool"
  and dirs_kept :: "pydict \<Rightarrow> pydict \<Rightarrow> bool" where
  "entry_mirrors node entry =
    (case node of
       Dict sub \<Rightarrow>
         (case entry of
            Some (Dict sub_changed) \<Rightarrow> keys_within sub sub_changed \<and> dirs_kept sub sub_changed
          | _ \<Rightarrow> False)
     | _ \<Rightarrow> True)"
| "dirs_kept [] changed = True"
| "dirs_kept ((name, node) # rest) changed =
    (entry_mirrors node (map_of changed name) \<and> dirs_kept rest changed)"

definition mirrors :: "pydict \<Rightarrow> pydict \<Rightarrow> bool" where
  "mirrors struct changed = (keys_within struct changed \<and> dirs_kept struct changed)"

text \<open>The directories of a structure below a path, in the order of the walk.\<close>

fun dirs_of :: "string list \<Rightarrow> obj \<Rightarrow> string list list"
  and dirs_in :: "string list \<Rightarrow> pydict \<Rightarrow> string list list" where
  "dirs_of path (Dict kvs) = path # dirs_in path kvs"
| "dirs_of path node = []"
| "dirs_in path [] = []"
| "dirs_in path ((name, node) # rest) = dirs_of (joinpath path name) node @ dirs_in path rest"

text \<open>The calls of \<^verbatim>\<open>create_directory\<close> in a log, each with its three arguments.\<close>

fun dir_calls :: "event list \<Rightarrow> (obj \<times> obj \<times> obj) list" where
  "dir_calls [] = []"
| "dir_calls (DirCall path update pretend # evs) = (path, update, pretend) # dir_calls evs"
| "dir_calls (ObjCall f args # evs) = dir_calls evs"

text \<open>
  The directory calls that a walk below \<open>p\<close>, and a whole run, are to make: one for the
  root on the outermost call, and one for every directory of the structure. A run extends
  the log by events whose directory calls are a prefix of these, and all of them when the
  run returns.
\<close>

definition walk_dirs :: "string list \<Rightarrow> obj \<Rightarrow> obj \<Rightarrow> pydict \<Rightarrow> (obj \<times> obj \<times> obj) list" where
  "walk_dirs p update pretend items = map (\<lambda>q. (PPath q, update, pretend)) (dirs_in p items)"

definition structure_dirs :: "pydict \<Rightarrow> obj \<Rightarrow> pydict \<Rightarrow> (obj \<times> obj \<times> obj) list" where
  "structure_dirs opts prefix struct =
    (let update = py_or (dict_get opts ''update'' PNone) (dict_get opts ''force'' PNone);
         pretend = dict_get opts ''pretend'' PNone;
         root = dict_get opts ''project_path'' (PStr ''.'')
     in (if prefix = PNone then [(root, update, pretend)] else [])
        @ (case Path (if prefix = PNone then root else prefix) of
             Inl e \<Rightarrow> []
           | Inr p \<Rightarrow> walk_dirs p update pretend struct))"

definition emits :: "event list \<Rightarrow> event list \<Rightarrow> bool \<Rightarrow> (obj \<times> obj \<times> obj) list \<Rightarrow> bool" where
  "emits tr tr' ok expected =
    (\<exists>evs rest. tr' = tr @ evs \<and> expected = dir_calls evs @ rest \<and> (ok \<longrightarrow> rest = []))"

text \<open>The equations that evaluate a run of the example runtime.\<close>

lemmas example_simps =
  create_structure.simps walk.simps example_rt_def example_call_def fs_create_directory_def
  op_create_def op_no_overwrite_def op_skip_on_update_def empty_disk_def
  dict_get_def py_or_def joinpath_def Let_def reify_content_def
  create_def NO_OVERWRITE_def SKIP_ON_UPDATE_def
  named_id_def braced_id_def id_start_def id_char_def convert_def


section \<open>The loop, one item at a time\<close>

text \<open>
  A run is the first lines of \<^verbatim>\<open>create_structure\<close> followed by the loop. The loop
  takes a directory and a leaf as the two equations below say, and a loop over
  \<open>xs @ ys\<close> is the loop over \<open>xs\<close> followed by the loop over \<open>ys\<close>. Properties of
  all structures are proved by induction over the nesting of the dictionaries.
\<close>

lemma create_structure_enter:
  "create_structure rt struct opts prefix w =
    (case enter rt opts prefix w of
       (Inl e, w1) \<Rightarrow> (Inl e, w1)
     | (Inr p, w1) \<Rightarrow>
        (case walk rt struct opts p
                (py_or (dict_get opts ''update'' PNone) (dict_get opts ''force'' PNone))
                (dict_get opts ''pretend'' PNone) [] w1 of
           (Inl e, w2) \<Rightarrow> (Inl e, w2)
         | (Inr changed, w2) \<Rightarrow> (Inr (changed, opts), w2)))"
  by (simp add: create_structure.simps enter_def Let_def split: prod.splits sum.splits)

lemma walk_Dict:
  "walk rt ((name, Dict sub) # rest) opts prefix update pretend changed w =
    (case create_directory rt (PPath (joinpath prefix name)) update pretend w of
       (Inl e, w1) \<Rightarrow> (Inl e, w1)
     | (Inr r, w1) \<Rightarrow>
        (case create_structure rt sub opts (PPath (joinpath prefix name)) w1 of
           (Inl e, w2) \<Rightarrow> (Inl e, w2)
         | (Inr (sub_changed, opts'), w2) \<Rightarrow>
             walk rt rest opts prefix update pretend
               (AList.update name (Dict sub_changed) changed) w2))"
  by (simp add: Let_def)

lemma walk_leaf:
  "\<not> isinstance_dict node \<Longrightarrow>
   walk rt ((name, node) # rest) opts prefix update pretend changed w =
    (case unpack2 (structure_leaf node) of
       Inl e \<Rightarrow> (Inl e, w)
     | Inr (template, file_op) \<Rightarrow>
        (case reify_content rt template opts w of
           (Inl e, w1) \<Rightarrow> (Inl e, w1)
         | (Inr content, w1) \<Rightarrow>
            (case py_call rt file_op [PPath (joinpath prefix name), content, Dict opts] w1 of
               (Inl e, w2) \<Rightarrow> (Inl e, w2)
             | (Inr r, w2) \<Rightarrow>
                 walk rt rest opts prefix update pretend
                   (if truthy r then AList.update name content changed else changed) w2)))"
  by (cases node) (simp_all add: Let_def)

lemma dict_induct:
  assumes step: "\<And>struct. (\<And>name sub. (name, Dict sub) \<in> set struct \<Longrightarrow> P sub) \<Longrightarrow> P struct"
  shows "P struct"
proof -
  have "\<forall>kvs. node = Dict kvs \<longrightarrow> P kvs" for node
  proof (induction node)
    case (Dict kvs)
    have "P kvs"
    proof (rule step)
      fix name sub assume m: "(name, Dict sub) \<in> set kvs"
      then have "\<forall>kvs'. Dict sub = Dict kvs' \<longrightarrow> P kvs'"
        by (rule Dict.IH) simp
      then show "P sub" by simp
    qed
    then show ?case by simp
  qed simp_all
  then show ?thesis by simp
qed


declare walk.simps(2) [simp del]

lemma walk_append:
  "walk rt (xs @ ys) opts prefix update pretend changed w =
    (case walk rt xs opts prefix update pretend changed w of
       (Inl e, w1) \<Rightarrow> (Inl e, w1)
     | (Inr changed1, w1) \<Rightarrow> walk rt ys opts prefix update pretend changed1 w1)"
proof (induction xs arbitrary: changed w)
  case Nil
  show ?case by simp
next
  case (Cons x xs)
  obtain name node where x: "x = (name, node)" by (cases x)
  show ?case
  proof (cases node)
    case (Dict sub)
    with x Cons.IH show ?thesis
      by (simp add: walk_Dict split: prod.splits sum.splits)
  qed (use x Cons.IH in \<open>simp_all add: walk_leaf split: prod.splits sum.splits\<close>)
qed

text \<open>What a loop that returns has done with its first item, and which keys it touches.\<close>

lemma unpack2_Inr: "unpack2 x = Inr (a, b) \<longleftrightarrow> x = Tuple [a, b]"
  by (cases x rule: unpack2.cases) auto

lemma walk_Cons_InrE [consumes 1, case_names dir leaf]:
  assumes "walk rt ((name, node) # rest) opts prefix update pretend changed w = (Inr changed', w')"
  obtains
    sub r w1 sub_changed opts' w2 where
      "node = Dict sub"
      "create_directory rt (PPath (joinpath prefix name)) update pretend w = (Inr r, w1)"
      "create_structure rt sub opts (PPath (joinpath prefix name)) w1
         = (Inr (sub_changed, opts'), w2)"
      "walk rt rest opts prefix update pretend (AList.update name (Dict sub_changed) changed) w2
         = (Inr changed', w')"
  | template file_op content w1 r w2 where
      "\<not> isinstance_dict node"
      "structure_leaf node = Tuple [template, file_op]"
      "reify_content rt template opts w = (Inr content, w1)"
      "py_call rt file_op [PPath (joinpath prefix name), content, Dict opts] w1 = (Inr r, w2)"
      "walk rt rest opts prefix update pretend
         (if truthy r then AList.update name content changed else changed) w2
         = (Inr changed', w')"
proof (cases "isinstance_dict node")
  case True
  then obtain sub where "node = Dict sub" by (cases node) simp_all
  with assms that(1) show ?thesis
    by (auto simp: walk_Dict split: prod.splits sum.splits)
next
  case False
  with assms that(2) show ?thesis
    by (auto simp: walk_leaf unpack2_Inr split: prod.splits sum.splits)
qed

lemma walk_other_keys:
  "walk rt items opts prefix update pretend changed w = (Inr changed', w') \<Longrightarrow>
   k \<notin> fst ` set items \<Longrightarrow> map_of changed' k = map_of changed k"
proof (induction items arbitrary: changed w)
  case Nil
  then show ?case by simp
next
  case (Cons x items)
  obtain name node where x: "x = (name, node)" by (cases x)
  with Cons.prems have k: "k \<noteq> name" "k \<notin> fst ` set items" by auto
  from Cons.prems(1) [unfolded x] show ?case
  proof (cases rule: walk_Cons_InrE)
    case (dir sub r w1 sub_changed opts' w2)
    from Cons.IH [OF dir(4) k(2)] k(1) show ?thesis
      by (simp add: update_conv')
  next
    case (leaf template file_op content w1 r w2)
    from Cons.IH [OF leaf(5) k(2)] k(1) show ?thesis
      by (simp add: update_conv')
  qed
qed

lemma walk_keys:
  "walk rt items opts prefix update pretend changed w = (Inr changed', w') \<Longrightarrow>
   fst ` set changed' \<subseteq> fst ` set changed \<union> fst ` set items"
proof (induction items arbitrary: changed w)
  case Nil
  then show ?case by simp
next
  case (Cons x items)
  obtain name node where x: "x = (name, node)" by (cases x)
  from Cons.prems(1) [unfolded x] show ?case
  proof (cases rule: walk_Cons_InrE)
    case (dir sub r w1 sub_changed opts' w2)
    from Cons.IH [OF dir(4)] show ?thesis
      by (auto simp: x dom_update)
  next
    case (leaf template file_op content w1 r w2)
    from Cons.IH [OF leaf(5)] show ?thesis
      by (auto simp: x dom_update split: if_splits)
  qed
qed

lemma walk_distinct:
  "walk rt items opts prefix update pretend changed w = (Inr changed', w') \<Longrightarrow>
   distinct (map fst changed) \<Longrightarrow> distinct (map fst changed')"
proof (induction items arbitrary: changed w)
  case Nil
  then show ?case by simp
next
  case (Cons x items)
  obtain name node where x: "x = (name, node)" by (cases x)
  from Cons.prems(1) [unfolded x] show ?case
  proof (cases rule: walk_Cons_InrE)
    case (dir sub r w1 sub_changed opts' w2)
    from Cons.IH [OF dir(4)] Cons.prems(2) show ?thesis
      by (simp add: distinct_update)
  next
    case (leaf template file_op content w1 r w2)
    from Cons.IH [OF leaf(5)] Cons.prems(2) show ?thesis
      by (simp add: distinct_update)
  qed
qed


lemma enter_Inr:
  "enter rt opts prefix w = (Inr p, w0) \<Longrightarrow>
   Path (if prefix = PNone then dict_get opts ''project_path'' (PStr ''.'') else prefix) = Inr p"
  by (auto simp: enter_def split: if_splits prod.splits sum.splits)

lemma create_structure_InrE:
  assumes "create_structure rt struct opts prefix w = (Inr (changed, opts'), w')"
  obtains p w0 where
    "enter rt opts prefix w = (Inr p, w0)"
    "walk rt struct opts p
       (py_or (dict_get opts ''update'' PNone) (dict_get opts ''force'' PNone))
       (dict_get opts ''pretend'' PNone) [] w0 = (Inr changed, w')"
    "opts' = opts"
  using assms by (auto simp: create_structure_enter split: prod.splits sum.splits)


section \<open>Normalising a leaf\<close>

text \<open>
  C4. \<^verbatim>\<open>structure_leaf\<close> returns a tuple as it is and pairs every other value with
  the operation \<^verbatim>\<open>create\<close>.
\<close>

theorem structure_leaf_normalizes:
  "(isinstance_tuple contents \<longrightarrow> structure_leaf contents = contents) \<and>
   (\<not> isinstance_tuple contents \<longrightarrow> structure_leaf contents = Tuple [contents, create])"
  by (cases contents) simp_all

theorem structure_leaf_normalizes_witness:
  "isinstance_tuple (Tuple [PStr ''text'', NO_OVERWRITE]) \<and>
   structure_leaf (Tuple [PStr ''text'', NO_OVERWRITE]) = Tuple [PStr ''text'', NO_OVERWRITE] \<and>
   \<not> isinstance_tuple (Template ''${name}'') \<and>
   structure_leaf (Template ''${name}'') = Tuple [Template ''${name}'', Function ''create'']"
proof -
  have t: "isinstance_tuple (Tuple [PStr ''text'', NO_OVERWRITE])" by simp
  have n: "\<not> isinstance_tuple (Template ''${name}'')" by simp
  from t n structure_leaf_normalizes [of "Tuple [PStr ''text'', NO_OVERWRITE]"]
    structure_leaf_normalizes [of "Template ''${name}''"]
  show ?thesis by (simp add: create_def)
qed


section \<open>Resolving the content\<close>

text \<open>How \<^verbatim>\<open>safe_substitute\<close> goes over text without \<^verbatim>\<open>$\<close> and over a
  placeholder whose name the mapping does not have.\<close>

lemma id_start_not_dollar: "id_start c \<Longrightarrow> c \<noteq> CHR ''$''"
  by (auto simp: id_start_def)

lemma not_id_start_brace: "\<not> id_start CHR ''{''"
  by (simp add: id_start_def)

lemma not_id_char_close: "\<not> id_char CHR ''}''"
  by (simp add: id_char_def id_start_def)

lemma named_id_identifier:
  assumes "is_identifier name" and "rest = [] \<or> \<not> id_char (hd rest)"
  shows "named_id (name @ rest) = Some (name, rest)"
proof -
  from assms(1) obtain c cs where name: "name = c # cs" and c: "id_start c"
    and all: "\<forall>x\<in>set name. id_char x"
    by (cases name) (auto simp: is_identifier_def list_all_iff)
  from assms(2) have tw: "takeWhile id_char rest = []" and dw: "dropWhile id_char rest = rest"
    by (cases rest; simp)+
  from all have "takeWhile id_char (name @ rest) = name @ takeWhile id_char rest"
    by (simp add: takeWhile_append2)
  moreover from all have "dropWhile id_char (name @ rest) = dropWhile id_char rest"
    by (simp add: dropWhile_append2)
  ultimately show ?thesis
    using name c tw dw by (simp add: named_id_def)
qed

lemma safe_substitute_plain:
  "CHR ''$'' \<notin> set pre \<Longrightarrow>
     safe_substitute str_of (pre @ rest) mapping = pre @ safe_substitute str_of rest mapping"
  by (induction pre) auto

lemma safe_substitute_named_absent:
  assumes "is_identifier name" and "map_of mapping name = None"
    and "rest = [] \<or> \<not> id_char (hd rest)"
  shows "safe_substitute str_of (CHR ''$'' # name @ rest) mapping
           = CHR ''$'' # name @ safe_substitute str_of rest mapping"
proof -
  from assms(1) have ne: "name @ rest \<noteq> []" and hd: "hd (name @ rest) \<noteq> CHR ''$''"
    by (auto simp: is_identifier_def dest: id_start_not_dollar)
  from named_id_identifier [OF assms(1,3)] ne hd assms(2) show ?thesis
    by (simp add: convert_def)
qed

lemma safe_substitute_braced_absent:
  assumes "is_identifier name" and "map_of mapping name = None"
  shows "safe_substitute str_of (''${'' @ name @ ''}'' @ rest) mapping
           = ''${'' @ name @ ''}'' @ safe_substitute str_of rest mapping"
proof -
  have "named_id (name @ (CHR ''}'' # rest)) = Some (name, CHR ''}'' # rest)"
    by (rule named_id_identifier [OF assms(1)]) (simp add: not_id_char_close)
  then have b: "braced_id (CHR ''{'' # name @ CHR ''}'' # rest) = Some (name, rest)"
    by (simp add: braced_id_def)
  have n: "named_id (CHR ''{'' # name @ CHR ''}'' # rest) = None"
    by (simp add: named_id_def not_id_start_brace)
  from b n assms(2) show ?thesis
    by (simp add: convert_def)
qed

text \<open>
  C2. \<^verbatim>\<open>reify_content\<close> tests in this order: a callable source is called with the
  options and the result of the call is returned; otherwise a template is substituted
  with \<^verbatim>\<open>safe_substitute\<close>, which never raises; otherwise the source is returned as
  it is. The substitution copies text without \<^verbatim>\<open>$\<close>, and it copies a placeholder
  \<^verbatim>\<open>$name\<close> or \<^verbatim>\<open>${name}\<close> whose name is not a key of the options, and goes on
  behind it.
\<close>

theorem reify_content_dispatch:
  "(callable source \<longrightarrow> reify_content rt source opts w = py_call rt source [Dict opts] w) \<and>
   (\<not> callable source \<and> isinstance_Template source \<longrightarrow>
      (\<exists>t. source = Template t \<and>
           reify_content rt source opts w
             = (Inr (PStr (safe_substitute (py_str rt) t opts)), w))) \<and>
   (\<not> callable source \<and> \<not> isinstance_Template source \<longrightarrow>
      reify_content rt source opts w = (Inr source, w)) \<and>
   (CHR ''$'' \<notin> set pre \<longrightarrow>
      safe_substitute str_of (pre @ rest) opts = pre @ safe_substitute str_of rest opts) \<and>
   (is_identifier name \<and> map_of opts name = None \<and> (rest = [] \<or> \<not> id_char (hd rest)) \<longrightarrow>
      safe_substitute str_of (CHR ''$'' # name @ rest) opts
        = CHR ''$'' # name @ safe_substitute str_of rest opts) \<and>
   (is_identifier name \<and> map_of opts name = None \<longrightarrow>
      safe_substitute str_of (''${'' @ name @ ''}'' @ rest) opts
        = ''${'' @ name @ ''}'' @ safe_substitute str_of rest opts)"
proof (intro conjI impI)
  show "reify_content rt source opts w = py_call rt source [Dict opts] w" if "callable source"
    using that by (simp add: reify_content_def)
  show "\<exists>t. source = Template t \<and>
           reify_content rt source opts w
             = (Inr (PStr (safe_substitute (py_str rt) t opts)), w)"
    if "\<not> callable source \<and> isinstance_Template source"
    using that by (cases source) (simp_all add: reify_content_def)
  show "reify_content rt source opts w = (Inr source, w)"
    if "\<not> callable source \<and> \<not> isinstance_Template source"
    using that by (cases source) (simp_all add: reify_content_def)
  show "safe_substitute str_of (pre @ rest) opts = pre @ safe_substitute str_of rest opts"
    if "CHR ''$'' \<notin> set pre"
    using that by (rule safe_substitute_plain)
  show "safe_substitute str_of (CHR ''$'' # name @ rest) opts
        = CHR ''$'' # name @ safe_substitute str_of rest opts"
    if "is_identifier name \<and> map_of opts name = None \<and> (rest = [] \<or> \<not> id_char (hd rest))"
    using that by (simp only: safe_substitute_named_absent)
  show "safe_substitute str_of (''${'' @ name @ ''}'' @ rest) opts
        = ''${'' @ name @ ''}'' @ safe_substitute str_of rest opts"
    if "is_identifier name \<and> map_of opts name = None"
    using that by (simp only: safe_substitute_braced_absent)
qed

theorem reify_content_dispatch_witness:
  "callable (CallableTemplate ''package_name'' ''${x}'') \<and>
   reify_content example_rt (CallableTemplate ''package_name'' ''${x}'')
       [(''package'', PStr ''demo'')] empty_disk
     = (Inr (PStr ''demo''), empty_disk) \<and>
   \<not> callable (Template ''${name} and ${missing}'') \<and>
   isinstance_Template (Template ''${name} and ${missing}'') \<and>
   reify_content example_rt (Template ''${name} and ${missing}'')
       [(''name'', PStr ''X'')] empty_disk
     = (Inr (PStr ''X and ${missing}''), empty_disk) \<and>
   \<not> callable (PBytes ''hi'') \<and> \<not> isinstance_Template (PBytes ''hi'') \<and>
   reify_content example_rt (PBytes ''hi'') [(''name'', PStr ''X'')] empty_disk
     = (Inr (PBytes ''hi''), empty_disk) \<and>
   CHR ''$'' \<notin> set ''to '' \<and>
   is_identifier ''missing'' \<and> map_of [(''name'', PStr ''X'')] ''missing'' = None \<and>
   \<not> id_char (hd ''!'') \<and>
   safe_substitute example_str (''to '' @ ''$missing!'') [(''name'', PStr ''X'')]
     = ''to $missing!'' \<and>
   safe_substitute example_str (''${'' @ ''missing'' @ ''}'' @ ''ly'') [(''name'', PStr ''X'')]
     = ''${missing}ly''"
proof -
  note call = reify_content_dispatch
    [where source = "CallableTemplate ''package_name'' ''${x}''" and rt = example_rt
      and opts = "[(''package'', PStr ''demo'')]" and w = empty_disk and pre = "[]"
      and rest = "[]" and name = "''missing''" and str_of = example_str]
  note tmpl = reify_content_dispatch
    [where source = "Template ''${name} and ${missing}''" and rt = example_rt
      and opts = "[(''name'', PStr ''X'')]" and w = empty_disk and pre = "''to ''"
      and rest = "''$missing!''" and name = "''missing''" and str_of = example_str]
  note lit = reify_content_dispatch
    [where source = "PBytes ''hi''" and rt = example_rt
      and opts = "[(''name'', PStr ''X'')]" and w = empty_disk and pre = "[]"
      and rest = "''!''" and name = "''missing''" and str_of = example_str]
  note braced = reify_content_dispatch
    [where source = PNone and rt = example_rt
      and opts = "[(''name'', PStr ''X'')]" and w = empty_disk and pre = "[]"
      and rest = "''ly''" and name = "''missing''" and str_of = example_str]
  from call tmpl lit braced show ?thesis
    by (simp add: example_simps is_identifier_def)
qed


section \<open>Values that are no content\<close>

text \<open>
  C5. The claim: a leaf that has none of the recognized shapes makes
  \<^verbatim>\<open>structure_leaf\<close> or \<^verbatim>\<open>reify_content\<close> raise a type error. The code: the
  integer \<open>42\<close> as a leaf is paired with \<^verbatim>\<open>create\<close>, resolved to itself and handed
  to the operation; in a dry run nothing raises and the changed tree holds \<open>42\<close>. A
  tuple of three raises \<^verbatim>\<open>ValueError\<close> where \<^verbatim>\<open>create_structure\<close> unpacks it.
\<close>

theorem unknown_leaf_is_not_rejected:
  "structure_leaf (PInt 42) = Tuple [PInt 42, create] \<and>
   reify_content rt (PInt 42) opts w = (Inr (PInt 42), w) \<and>
   create_structure example_rt [(''a.txt'', PInt 42)] [(''pretend'', PBool True)] PNone
       empty_disk
     = (Inr ([(''a.txt'', PInt 42)], [(''pretend'', PBool True)]), empty_disk) \<and>
   create_structure example_rt [(''a.txt'', Tuple [PStr ''x'', create, create])]
       [(''pretend'', PBool True)] PNone empty_disk
     = (Inl ValueError, empty_disk)"
  by (simp add: example_simps)


section \<open>Visiting a leaf\<close>

text \<open>What a normalised pair and a resolved content are, read off the two functions.\<close>

lemma structure_leaf_TupleD:
  "structure_leaf node = Tuple [template, file_op] \<Longrightarrow>
   (if isinstance_tuple node then node = Tuple [template, file_op]
    else template = node \<and> file_op = create)"
  by (cases node) auto

lemma reify_content_InrD:
  "reify_content rt template opts w1 = (Inr content, w2) \<Longrightarrow>
   (if callable template then py_call rt template [Dict opts] w1 = (Inr content, w2)
    else if isinstance_Template template
      then (\<exists>text. template = Template text \<and>
                  content = PStr (safe_substitute (py_str rt) text opts)) \<and> w2 = w1
    else content = template \<and> w2 = w1)"
  by (cases template) (auto simp: reify_content_def)

text \<open>
  C1. In a run of \<^verbatim>\<open>create_structure\<close> that returns, every item \<open>(name, node)\<close> of
  the structure is visited in the world \<open>w1\<close> that the items before it have left.

  A leaf is normalised: a tuple is the pair of content and operation, any other node is the
  content and the operation is \<^verbatim>\<open>create\<close>. The content is resolved with the options
  of the run: a callable is called with them, a template is substituted with them,
  anything else stands for itself. The operation is called with the path
  \<^verbatim>\<open>prefix / name\<close>, the resolved content and the options of the run, in the world the
  resolution has left. The rest of the loop goes on in the world \<open>w3\<close> that the operation
  has left, with the resolved content recorded under \<open>name\<close> if the operation returned a
  true value and nothing recorded if it returned a false one, and ends in the result of the
  run; so the changed tree has the content under \<open>name\<close> in the one case and no entry for
  \<open>name\<close> in the other.

  A directory is created and then walked by \<^verbatim>\<open>create_structure\<close> itself, with the same
  options and the path \<^verbatim>\<open>prefix / name\<close>, and the changed tree has the changed tree of
  that run under \<open>name\<close>. The statement therefore holds of the nested run as well: the
  leaves of a directory, at any depth, are visited in the same way, with the same options.
\<close>

theorem leaf_visit:
  assumes run: "create_structure rt (before @ (name, node) # after) opts prefix w
                  = (Inr (changed, opts'), w')"
    and keys: "distinct (map fst (before @ (name, node) # after))"
  shows "\<exists>p changed1 w1.
     Path (if prefix = PNone then dict_get opts ''project_path'' (PStr ''.'') else prefix)
       = Inr p \<and>
     create_structure rt before opts prefix w = (Inr (changed1, opts), w1) \<and>
     (\<not> isinstance_dict node \<longrightarrow>
       (\<exists>template file_op content w2 r w3.
          (if isinstance_tuple node then node = Tuple [template, file_op]
           else template = node \<and> file_op = create) \<and>
          (if callable template then py_call rt template [Dict opts] w1 = (Inr content, w2)
           else if isinstance_Template template
             then (\<exists>text. template = Template text \<and>
                         content = PStr (safe_substitute (py_str rt) text opts)) \<and> w2 = w1
           else content = template \<and> w2 = w1) \<and>
          py_call rt file_op [PPath (joinpath p name), content, Dict opts] w2 = (Inr r, w3) \<and>
          walk rt after opts p
              (py_or (dict_get opts ''update'' PNone) (dict_get opts ''force'' PNone))
              (dict_get opts ''pretend'' PNone)
              (if truthy r then AList.update name content changed1 else changed1) w3
            = (Inr changed, w') \<and>
          map_of changed name = (if truthy r then Some content else None))) \<and>
     (\<forall>sub. node = Dict sub \<longrightarrow>
       (\<exists>made w2 sub_changed w3.
          create_directory rt (PPath (joinpath p name))
              (py_or (dict_get opts ''update'' PNone) (dict_get opts ''force'' PNone))
              (dict_get opts ''pretend'' PNone) w1
            = (Inr made, w2) \<and>
          create_structure rt sub opts (PPath (joinpath p name)) w2
            = (Inr (sub_changed, opts), w3) \<and>
          walk rt after opts p
              (py_or (dict_get opts ''update'' PNone) (dict_get opts ''force'' PNone))
              (dict_get opts ''pretend'' PNone)
              (AList.update name (Dict sub_changed) changed1) w3
            = (Inr changed, w') \<and>
          map_of changed name = Some (Dict sub_changed)))"
proof -
  let ?u = "py_or (dict_get opts ''update'' PNone) (dict_get opts ''force'' PNone)"
  let ?pr = "dict_get opts ''pretend'' PNone"
  from run obtain p w0 where
    enter: "enter rt opts prefix w = (Inr p, w0)" and
    walk: "walk rt (before @ (name, node) # after) opts p ?u ?pr [] w0 = (Inr changed, w')"
    by (rule create_structure_InrE)
  from walk obtain changed1 w1 where
    before: "walk rt before opts p ?u ?pr [] w0 = (Inr changed1, w1)" and
    here: "walk rt ((name, node) # after) opts p ?u ?pr changed1 w1 = (Inr changed, w')"
    by (auto simp: walk_append split: prod.splits sum.splits)
  from keys have fresh: "name \<notin> fst ` set before" "name \<notin> fst ` set after"
    by auto
  from walk_keys [OF before] fresh(1) have absent: "map_of changed1 name = None"
    by (auto simp: map_of_eq_None_iff)
  from enter before
  have prefix_run: "create_structure rt before opts prefix w = (Inr (changed1, opts), w1)"
    by (simp add: create_structure_enter)
  have leaf_part: "\<exists>template file_op content w2 r w3.
          (if isinstance_tuple node then node = Tuple [template, file_op]
           else template = node \<and> file_op = create) \<and>
          (if callable template then py_call rt template [Dict opts] w1 = (Inr content, w2)
           else if isinstance_Template template
             then (\<exists>text. template = Template text \<and>
                         content = PStr (safe_substitute (py_str rt) text opts)) \<and> w2 = w1
           else content = template \<and> w2 = w1) \<and>
          py_call rt file_op [PPath (joinpath p name), content, Dict opts] w2 = (Inr r, w3) \<and>
          walk rt after opts p ?u ?pr
              (if truthy r then AList.update name content changed1 else changed1) w3
            = (Inr changed, w') \<and>
          map_of changed name = (if truthy r then Some content else None)"
    if leaf: "\<not> isinstance_dict node"
  proof -
    from here leaf obtain template file_op content w2 r w3 where
      norm: "structure_leaf node = Tuple [template, file_op]" and
      reify: "reify_content rt template opts w1 = (Inr content, w2)" and
      op: "py_call rt file_op [PPath (joinpath p name), content, Dict opts] w2 = (Inr r, w3)" and
      rest: "walk rt after opts p ?u ?pr
               (if truthy r then AList.update name content changed1 else changed1) w3
             = (Inr changed, w')"
      by (cases rule: walk_Cons_InrE) auto
    from walk_other_keys [OF rest fresh(2)] absent
    have entry: "map_of changed name = (if truthy r then Some content else None)"
      by (simp add: update_conv')
    from structure_leaf_TupleD [OF norm] reify_content_InrD [OF reify] op rest entry
    show ?thesis by blast
  qed
  have dir_part: "\<exists>made w2 sub_changed w3.
          create_directory rt (PPath (joinpath p name)) ?u ?pr w1 = (Inr made, w2) \<and>
          create_structure rt sub opts (PPath (joinpath p name)) w2
            = (Inr (sub_changed, opts), w3) \<and>
          walk rt after opts p ?u ?pr (AList.update name (Dict sub_changed) changed1) w3
            = (Inr changed, w') \<and>
          map_of changed name = Some (Dict sub_changed)"
    if dir: "node = Dict sub" for sub
  proof -
    from here dir obtain made w2 sub_changed opts1 w3 where
      mk: "create_directory rt (PPath (joinpath p name)) ?u ?pr w1 = (Inr made, w2)" and
      nested: "create_structure rt sub opts (PPath (joinpath p name)) w2
                 = (Inr (sub_changed, opts1), w3)" and
      rest: "walk rt after opts p ?u ?pr (AList.update name (Dict sub_changed) changed1) w3
             = (Inr changed, w')"
      by (cases rule: walk_Cons_InrE) auto
    from nested have "opts1 = opts"
      by (rule create_structure_InrE)
    from walk_other_keys [OF rest fresh(2)]
    have entry: "map_of changed name = Some (Dict sub_changed)"
      by (simp add: update_conv')
    from mk nested [unfolded \<open>opts1 = opts\<close>] rest entry show ?thesis by blast
  qed
  from enter_Inr [OF enter] prefix_run leaf_part dir_part show ?thesis
    by blast
qed

theorem leaf_visit_witness:
  "(create_structure example_rt
      ([] @ (''a.txt'', Template ''Hello ${name}'') # [(''sub'', Dict [(''b.txt'', Tuple [Function ''package_name'', create])]), (''c.txt'', Tuple [PStr ''see'', NO_OVERWRITE])])
      [(''name'', PStr ''X''), (''package'', PStr ''demo'')] (PStr ''proj'')
      \<lparr>files = [([''proj'', ''c.txt''], PStr ''OLD'')], dirs = [[''proj'']]\<rparr>
    = (Inr ([(''a.txt'', PStr ''Hello X''), (''sub'', Dict [(''b.txt'', PStr ''demo'')])], [(''name'', PStr ''X''), (''package'', PStr ''demo'')]),
       \<lparr>files = [([''proj'', ''c.txt''], PStr ''OLD''), ([''proj'', ''a.txt''], PStr ''Hello X''),
                   ([''proj'', ''sub'', ''b.txt''], PStr ''demo'')],
          dirs = [[''proj'', ''sub''], [''proj'']]\<rparr>)) \<and>
   (distinct (map fst ([] @ (''a.txt'', Template ''Hello ${name}'') # [(''sub'', Dict [(''b.txt'', Tuple [Function ''package_name'', create])]), (''c.txt'', Tuple [PStr ''see'', NO_OVERWRITE])]))) \<and>
   (\<exists>p changed1 w1.
     Path (if (PStr ''proj'') = PNone then dict_get [(''name'', PStr ''X''), (''package'', PStr ''demo'')] ''project_path'' (PStr ''.'') else (PStr ''proj''))
       = Inr p \<and>
     create_structure example_rt [] [(''name'', PStr ''X''), (''package'', PStr ''demo'')] (PStr ''proj'') \<lparr>files = [([''proj'', ''c.txt''], PStr ''OLD'')], dirs = [[''proj'']]\<rparr> = (Inr (changed1, [(''name'', PStr ''X''), (''package'', PStr ''demo'')]), w1) \<and>
     (\<not> isinstance_dict (Template ''Hello ${name}'') \<longrightarrow>
       (\<exists>template file_op content w2 r w3.
          (if isinstance_tuple (Template ''Hello ${name}'') then (Template ''Hello ${name}'') = Tuple [template, file_op]
           else template = (Template ''Hello ${name}'') \<and> file_op = create) \<and>
          (if callable template
           then py_call example_rt template [Dict [(''name'', PStr ''X''), (''package'', PStr ''demo'')]] w1 = (Inr content, w2)
           else if isinstance_Template template
             then (\<exists>text. template = Template text \<and>
                         content = PStr (safe_substitute (py_str example_rt) text [(''name'', PStr ''X''), (''package'', PStr ''demo'')])) \<and>
                  w2 = w1
           else content = template \<and> w2 = w1) \<and>
          py_call example_rt file_op [PPath (joinpath p ''a.txt''), content, Dict [(''name'', PStr ''X''), (''package'', PStr ''demo'')]] w2
            = (Inr r, w3) \<and>
          walk example_rt [(''sub'', Dict [(''b.txt'', Tuple [Function ''package_name'', create])]), (''c.txt'', Tuple [PStr ''see'', NO_OVERWRITE])] [(''name'', PStr ''X''), (''package'', PStr ''demo'')] p
              (py_or (dict_get [(''name'', PStr ''X''), (''package'', PStr ''demo'')] ''update'' PNone) (dict_get [(''name'', PStr ''X''), (''package'', PStr ''demo'')] ''force'' PNone))
              (dict_get [(''name'', PStr ''X''), (''package'', PStr ''demo'')] ''pretend'' PNone)
              (if truthy r then AList.update ''a.txt'' content changed1 else changed1) w3
            = (Inr [(''a.txt'', PStr ''Hello X''), (''sub'', Dict [(''b.txt'', PStr ''demo'')])], \<lparr>files = [([''proj'', ''c.txt''], PStr ''OLD''), ([''proj'', ''a.txt''], PStr ''Hello X''),
                   ([''proj'', ''sub'', ''b.txt''], PStr ''demo'')],
          dirs = [[''proj'', ''sub''], [''proj'']]\<rparr>) \<and>
          map_of [(''a.txt'', PStr ''Hello X''), (''sub'', Dict [(''b.txt'', PStr ''demo'')])] ''a.txt'' = (if truthy r then Some content else None))) \<and>
     (\<forall>sub. (Template ''Hello ${name}'') = Dict sub \<longrightarrow>
       (\<exists>made w2 sub_changed w3.
          create_directory example_rt (PPath (joinpath p ''a.txt''))
              (py_or (dict_get [(''name'', PStr ''X''), (''package'', PStr ''demo'')] ''update'' PNone) (dict_get [(''name'', PStr ''X''), (''package'', PStr ''demo'')] ''force'' PNone))
              (dict_get [(''name'', PStr ''X''), (''package'', PStr ''demo'')] ''pretend'' PNone) w1
            = (Inr made, w2) \<and>
          create_structure example_rt sub [(''name'', PStr ''X''), (''package'', PStr ''demo'')] (PPath (joinpath p ''a.txt'')) w2
            = (Inr (sub_changed, [(''name'', PStr ''X''), (''package'', PStr ''demo'')]), w3) \<and>
          walk example_rt [(''sub'', Dict [(''b.txt'', Tuple [Function ''package_name'', create])]), (''c.txt'', Tuple [PStr ''see'', NO_OVERWRITE])] [(''name'', PStr ''X''), (''package'', PStr ''demo'')] p
              (py_or (dict_get [(''name'', PStr ''X''), (''package'', PStr ''demo'')] ''update'' PNone) (dict_get [(''name'', PStr ''X''), (''package'', PStr ''demo'')] ''force'' PNone))
              (dict_get [(''name'', PStr ''X''), (''package'', PStr ''demo'')] ''pretend'' PNone)
              (AList.update ''a.txt'' (Dict sub_changed) changed1) w3
            = (Inr [(''a.txt'', PStr ''Hello X''), (''sub'', Dict [(''b.txt'', PStr ''demo'')])], \<lparr>files = [([''proj'', ''c.txt''], PStr ''OLD''), ([''proj'', ''a.txt''], PStr ''Hello X''),
                   ([''proj'', ''sub'', ''b.txt''], PStr ''demo'')],
          dirs = [[''proj'', ''sub''], [''proj'']]\<rparr>) \<and>
          map_of [(''a.txt'', PStr ''Hello X''), (''sub'', Dict [(''b.txt'', PStr ''demo'')])] ''a.txt'' = Some (Dict sub_changed)))) \<and>
   (create_structure example_rt
      ([(''a.txt'', Template ''Hello ${name}'')] @ (''sub'', Dict [(''b.txt'', Tuple [Function ''package_name'', create])]) # [(''c.txt'', Tuple [PStr ''see'', NO_OVERWRITE])])
      [(''name'', PStr ''X''), (''package'', PStr ''demo'')] (PStr ''proj'')
      \<lparr>files = [([''proj'', ''c.txt''], PStr ''OLD'')], dirs = [[''proj'']]\<rparr>
    = (Inr ([(''a.txt'', PStr ''Hello X''), (''sub'', Dict [(''b.txt'', PStr ''demo'')])], [(''name'', PStr ''X''), (''package'', PStr ''demo'')]),
       \<lparr>files = [([''proj'', ''c.txt''], PStr ''OLD''), ([''proj'', ''a.txt''], PStr ''Hello X''),
                   ([''proj'', ''sub'', ''b.txt''], PStr ''demo'')],
          dirs = [[''proj'', ''sub''], [''proj'']]\<rparr>)) \<and>
   (distinct (map fst ([(''a.txt'', Template ''Hello ${name}'')] @ (''sub'', Dict [(''b.txt'', Tuple [Function ''package_name'', create])]) # [(''c.txt'', Tuple [PStr ''see'', NO_OVERWRITE])]))) \<and>
   (\<exists>p changed1 w1.
     Path (if (PStr ''proj'') = PNone then dict_get [(''name'', PStr ''X''), (''package'', PStr ''demo'')] ''project_path'' (PStr ''.'') else (PStr ''proj''))
       = Inr p \<and>
     create_structure example_rt [(''a.txt'', Template ''Hello ${name}'')] [(''name'', PStr ''X''), (''package'', PStr ''demo'')] (PStr ''proj'') \<lparr>files = [([''proj'', ''c.txt''], PStr ''OLD'')], dirs = [[''proj'']]\<rparr> = (Inr (changed1, [(''name'', PStr ''X''), (''package'', PStr ''demo'')]), w1) \<and>
     (\<not> isinstance_dict (Dict [(''b.txt'', Tuple [Function ''package_name'', create])]) \<longrightarrow>
       (\<exists>template file_op content w2 r w3.
          (if isinstance_tuple (Dict [(''b.txt'', Tuple [Function ''package_name'', create])]) then (Dict [(''b.txt'', Tuple [Function ''package_name'', create])]) = Tuple [template, file_op]
           else template = (Dict [(''b.txt'', Tuple [Function ''package_name'', create])]) \<and> file_op = create) \<and>
          (if callable template
           then py_call example_rt template [Dict [(''name'', PStr ''X''), (''package'', PStr ''demo'')]] w1 = (Inr content, w2)
           else if isinstance_Template template
             then (\<exists>text. template = Template text \<and>
                         content = PStr (safe_substitute (py_str example_rt) text [(''name'', PStr ''X''), (''package'', PStr ''demo'')])) \<and>
                  w2 = w1
           else content = template \<and> w2 = w1) \<and>
          py_call example_rt file_op [PPath (joinpath p ''sub''), content, Dict [(''name'', PStr ''X''), (''package'', PStr ''demo'')]] w2
            = (Inr r, w3) \<and>
          walk example_rt [(''c.txt'', Tuple [PStr ''see'', NO_OVERWRITE])] [(''name'', PStr ''X''), (''package'', PStr ''demo'')] p
              (py_or (dict_get [(''name'', PStr ''X''), (''package'', PStr ''demo'')] ''update'' PNone) (dict_get [(''name'', PStr ''X''), (''package'', PStr ''demo'')] ''force'' PNone))
              (dict_get [(''name'', PStr ''X''), (''package'', PStr ''demo'')] ''pretend'' PNone)
              (if truthy r then AList.update ''sub'' content changed1 else changed1) w3
            = (Inr [(''a.txt'', PStr ''Hello X''), (''sub'', Dict [(''b.txt'', PStr ''demo'')])], \<lparr>files = [([''proj'', ''c.txt''], PStr ''OLD''), ([''proj'', ''a.txt''], PStr ''Hello X''),
                   ([''proj'', ''sub'', ''b.txt''], PStr ''demo'')],
          dirs = [[''proj'', ''sub''], [''proj'']]\<rparr>) \<and>
          map_of [(''a.txt'', PStr ''Hello X''), (''sub'', Dict [(''b.txt'', PStr ''demo'')])] ''sub'' = (if truthy r then Some content else None))) \<and>
     (\<forall>sub. (Dict [(''b.txt'', Tuple [Function ''package_name'', create])]) = Dict sub \<longrightarrow>
       (\<exists>made w2 sub_changed w3.
          create_directory example_rt (PPath (joinpath p ''sub''))
              (py_or (dict_get [(''name'', PStr ''X''), (''package'', PStr ''demo'')] ''update'' PNone) (dict_get [(''name'', PStr ''X''), (''package'', PStr ''demo'')] ''force'' PNone))
              (dict_get [(''name'', PStr ''X''), (''package'', PStr ''demo'')] ''pretend'' PNone) w1
            = (Inr made, w2) \<and>
          create_structure example_rt sub [(''name'', PStr ''X''), (''package'', PStr ''demo'')] (PPath (joinpath p ''sub'')) w2
            = (Inr (sub_changed, [(''name'', PStr ''X''), (''package'', PStr ''demo'')]), w3) \<and>
          walk example_rt [(''c.txt'', Tuple [PStr ''see'', NO_OVERWRITE])] [(''name'', PStr ''X''), (''package'', PStr ''demo'')] p
              (py_or (dict_get [(''name'', PStr ''X''), (''package'', PStr ''demo'')] ''update'' PNone) (dict_get [(''name'', PStr ''X''), (''package'', PStr ''demo'')] ''force'' PNone))
              (dict_get [(''name'', PStr ''X''), (''package'', PStr ''demo'')] ''pretend'' PNone)
              (AList.update ''sub'' (Dict sub_changed) changed1) w3
            = (Inr [(''a.txt'', PStr ''Hello X''), (''sub'', Dict [(''b.txt'', PStr ''demo'')])], \<lparr>files = [([''proj'', ''c.txt''], PStr ''OLD''), ([''proj'', ''a.txt''], PStr ''Hello X''),
                   ([''proj'', ''sub'', ''b.txt''], PStr ''demo'')],
          dirs = [[''proj'', ''sub''], [''proj'']]\<rparr>) \<and>
          map_of [(''a.txt'', PStr ''Hello X''), (''sub'', Dict [(''b.txt'', PStr ''demo'')])] ''sub'' = Some (Dict sub_changed)))) \<and>
   (create_structure example_rt
      ([(''a.txt'', Template ''Hello ${name}''), (''sub'', Dict [(''b.txt'', Tuple [Function ''package_name'', create])])] @ (''c.txt'', Tuple [PStr ''see'', NO_OVERWRITE]) # [])
      [(''name'', PStr ''X''), (''package'', PStr ''demo'')] (PStr ''proj'')
      \<lparr>files = [([''proj'', ''c.txt''], PStr ''OLD'')], dirs = [[''proj'']]\<rparr>
    = (Inr ([(''a.txt'', PStr ''Hello X''), (''sub'', Dict [(''b.txt'', PStr ''demo'')])], [(''name'', PStr ''X''), (''package'', PStr ''demo'')]),
       \<lparr>files = [([''proj'', ''c.txt''], PStr ''OLD''), ([''proj'', ''a.txt''], PStr ''Hello X''),
                   ([''proj'', ''sub'', ''b.txt''], PStr ''demo'')],
          dirs = [[''proj'', ''sub''], [''proj'']]\<rparr>)) \<and>
   (distinct (map fst ([(''a.txt'', Template ''Hello ${name}''), (''sub'', Dict [(''b.txt'', Tuple [Function ''package_name'', create])])] @ (''c.txt'', Tuple [PStr ''see'', NO_OVERWRITE]) # []))) \<and>
   (\<exists>p changed1 w1.
     Path (if (PStr ''proj'') = PNone then dict_get [(''name'', PStr ''X''), (''package'', PStr ''demo'')] ''project_path'' (PStr ''.'') else (PStr ''proj''))
       = Inr p \<and>
     create_structure example_rt [(''a.txt'', Template ''Hello ${name}''), (''sub'', Dict [(''b.txt'', Tuple [Function ''package_name'', create])])] [(''name'', PStr ''X''), (''package'', PStr ''demo'')] (PStr ''proj'') \<lparr>files = [([''proj'', ''c.txt''], PStr ''OLD'')], dirs = [[''proj'']]\<rparr> = (Inr (changed1, [(''name'', PStr ''X''), (''package'', PStr ''demo'')]), w1) \<and>
     (\<not> isinstance_dict (Tuple [PStr ''see'', NO_OVERWRITE]) \<longrightarrow>
       (\<exists>template file_op content w2 r w3.
          (if isinstance_tuple (Tuple [PStr ''see'', NO_OVERWRITE]) then (Tuple [PStr ''see'', NO_OVERWRITE]) = Tuple [template, file_op]
           else template = (Tuple [PStr ''see'', NO_OVERWRITE]) \<and> file_op = create) \<and>
          (if callable template
           then py_call example_rt template [Dict [(''name'', PStr ''X''), (''package'', PStr ''demo'')]] w1 = (Inr content, w2)
           else if isinstance_Template template
             then (\<exists>text. template = Template text \<and>
                         content = PStr (safe_substitute (py_str example_rt) text [(''name'', PStr ''X''), (''package'', PStr ''demo'')])) \<and>
                  w2 = w1
           else content = template \<and> w2 = w1) \<and>
          py_call example_rt file_op [PPath (joinpath p ''c.txt''), content, Dict [(''name'', PStr ''X''), (''package'', PStr ''demo'')]] w2
            = (Inr r, w3) \<and>
          walk example_rt [] [(''name'', PStr ''X''), (''package'', PStr ''demo'')] p
              (py_or (dict_get [(''name'', PStr ''X''), (''package'', PStr ''demo'')] ''update'' PNone) (dict_get [(''name'', PStr ''X''), (''package'', PStr ''demo'')] ''force'' PNone))
              (dict_get [(''name'', PStr ''X''), (''package'', PStr ''demo'')] ''pretend'' PNone)
              (if truthy r then AList.update ''c.txt'' content changed1 else changed1) w3
            = (Inr [(''a.txt'', PStr ''Hello X''), (''sub'', Dict [(''b.txt'', PStr ''demo'')])], \<lparr>files = [([''proj'', ''c.txt''], PStr ''OLD''), ([''proj'', ''a.txt''], PStr ''Hello X''),
                   ([''proj'', ''sub'', ''b.txt''], PStr ''demo'')],
          dirs = [[''proj'', ''sub''], [''proj'']]\<rparr>) \<and>
          map_of [(''a.txt'', PStr ''Hello X''), (''sub'', Dict [(''b.txt'', PStr ''demo'')])] ''c.txt'' = (if truthy r then Some content else None))) \<and>
     (\<forall>sub. (Tuple [PStr ''see'', NO_OVERWRITE]) = Dict sub \<longrightarrow>
       (\<exists>made w2 sub_changed w3.
          create_directory example_rt (PPath (joinpath p ''c.txt''))
              (py_or (dict_get [(''name'', PStr ''X''), (''package'', PStr ''demo'')] ''update'' PNone) (dict_get [(''name'', PStr ''X''), (''package'', PStr ''demo'')] ''force'' PNone))
              (dict_get [(''name'', PStr ''X''), (''package'', PStr ''demo'')] ''pretend'' PNone) w1
            = (Inr made, w2) \<and>
          create_structure example_rt sub [(''name'', PStr ''X''), (''package'', PStr ''demo'')] (PPath (joinpath p ''c.txt'')) w2
            = (Inr (sub_changed, [(''name'', PStr ''X''), (''package'', PStr ''demo'')]), w3) \<and>
          walk example_rt [] [(''name'', PStr ''X''), (''package'', PStr ''demo'')] p
              (py_or (dict_get [(''name'', PStr ''X''), (''package'', PStr ''demo'')] ''update'' PNone) (dict_get [(''name'', PStr ''X''), (''package'', PStr ''demo'')] ''force'' PNone))
              (dict_get [(''name'', PStr ''X''), (''package'', PStr ''demo'')] ''pretend'' PNone)
              (AList.update ''c.txt'' (Dict sub_changed) changed1) w3
            = (Inr [(''a.txt'', PStr ''Hello X''), (''sub'', Dict [(''b.txt'', PStr ''demo'')])], \<lparr>files = [([''proj'', ''c.txt''], PStr ''OLD''), ([''proj'', ''a.txt''], PStr ''Hello X''),
                   ([''proj'', ''sub'', ''b.txt''], PStr ''demo'')],
          dirs = [[''proj'', ''sub''], [''proj'']]\<rparr>) \<and>
          map_of [(''a.txt'', PStr ''Hello X''), (''sub'', Dict [(''b.txt'', PStr ''demo'')])] ''c.txt'' = Some (Dict sub_changed)))) \<and>
   (create_structure example_rt
      ([] @ (''b.txt'', Tuple [Function ''package_name'', create]) # [])
      [(''name'', PStr ''X''), (''package'', PStr ''demo'')] (PPath [''proj'', ''sub''])
      \<lparr>files = [([''proj'', ''c.txt''], PStr ''OLD''), ([''proj'', ''a.txt''], PStr ''Hello X'')],
          dirs = [[''proj'', ''sub''], [''proj'']]\<rparr>
    = (Inr ([(''b.txt'', PStr ''demo'')], [(''name'', PStr ''X''), (''package'', PStr ''demo'')]),
       \<lparr>files = [([''proj'', ''c.txt''], PStr ''OLD''), ([''proj'', ''a.txt''], PStr ''Hello X''),
                   ([''proj'', ''sub'', ''b.txt''], PStr ''demo'')],
          dirs = [[''proj'', ''sub''], [''proj'']]\<rparr>)) \<and>
   (distinct (map fst ([] @ (''b.txt'', Tuple [Function ''package_name'', create]) # []))) \<and>
   (\<exists>p changed1 w1.
     Path (if (PPath [''proj'', ''sub'']) = PNone then dict_get [(''name'', PStr ''X''), (''package'', PStr ''demo'')] ''project_path'' (PStr ''.'') else (PPath [''proj'', ''sub'']))
       = Inr p \<and>
     create_structure example_rt [] [(''name'', PStr ''X''), (''package'', PStr ''demo'')] (PPath [''proj'', ''sub'']) \<lparr>files = [([''proj'', ''c.txt''], PStr ''OLD''), ([''proj'', ''a.txt''], PStr ''Hello X'')],
          dirs = [[''proj'', ''sub''], [''proj'']]\<rparr> = (Inr (changed1, [(''name'', PStr ''X''), (''package'', PStr ''demo'')]), w1) \<and>
     (\<not> isinstance_dict (Tuple [Function ''package_name'', create]) \<longrightarrow>
       (\<exists>template file_op content w2 r w3.
          (if isinstance_tuple (Tuple [Function ''package_name'', create]) then (Tuple [Function ''package_name'', create]) = Tuple [template, file_op]
           else template = (Tuple [Function ''package_name'', create]) \<and> file_op = create) \<and>
          (if callable template
           then py_call example_rt template [Dict [(''name'', PStr ''X''), (''package'', PStr ''demo'')]] w1 = (Inr content, w2)
           else if isinstance_Template template
             then (\<exists>text. template = Template text \<and>
                         content = PStr (safe_substitute (py_str example_rt) text [(''name'', PStr ''X''), (''package'', PStr ''demo'')])) \<and>
                  w2 = w1
           else content = template \<and> w2 = w1) \<and>
          py_call example_rt file_op [PPath (joinpath p ''b.txt''), content, Dict [(''name'', PStr ''X''), (''package'', PStr ''demo'')]] w2
            = (Inr r, w3) \<and>
          walk example_rt [] [(''name'', PStr ''X''), (''package'', PStr ''demo'')] p
              (py_or (dict_get [(''name'', PStr ''X''), (''package'', PStr ''demo'')] ''update'' PNone) (dict_get [(''name'', PStr ''X''), (''package'', PStr ''demo'')] ''force'' PNone))
              (dict_get [(''name'', PStr ''X''), (''package'', PStr ''demo'')] ''pretend'' PNone)
              (if truthy r then AList.update ''b.txt'' content changed1 else changed1) w3
            = (Inr [(''b.txt'', PStr ''demo'')], \<lparr>files = [([''proj'', ''c.txt''], PStr ''OLD''), ([''proj'', ''a.txt''], PStr ''Hello X''),
                   ([''proj'', ''sub'', ''b.txt''], PStr ''demo'')],
          dirs = [[''proj'', ''sub''], [''proj'']]\<rparr>) \<and>
          map_of [(''b.txt'', PStr ''demo'')] ''b.txt'' = (if truthy r then Some content else None))) \<and>
     (\<forall>sub. (Tuple [Function ''package_name'', create]) = Dict sub \<longrightarrow>
       (\<exists>made w2 sub_changed w3.
          create_directory example_rt (PPath (joinpath p ''b.txt''))
              (py_or (dict_get [(''name'', PStr ''X''), (''package'', PStr ''demo'')] ''update'' PNone) (dict_get [(''name'', PStr ''X''), (''package'', PStr ''demo'')] ''force'' PNone))
              (dict_get [(''name'', PStr ''X''), (''package'', PStr ''demo'')] ''pretend'' PNone) w1
            = (Inr made, w2) \<and>
          create_structure example_rt sub [(''name'', PStr ''X''), (''package'', PStr ''demo'')] (PPath (joinpath p ''b.txt'')) w2
            = (Inr (sub_changed, [(''name'', PStr ''X''), (''package'', PStr ''demo'')]), w3) \<and>
          walk example_rt [] [(''name'', PStr ''X''), (''package'', PStr ''demo'')] p
              (py_or (dict_get [(''name'', PStr ''X''), (''package'', PStr ''demo'')] ''update'' PNone) (dict_get [(''name'', PStr ''X''), (''package'', PStr ''demo'')] ''force'' PNone))
              (dict_get [(''name'', PStr ''X''), (''package'', PStr ''demo'')] ''pretend'' PNone)
              (AList.update ''b.txt'' (Dict sub_changed) changed1) w3
            = (Inr [(''b.txt'', PStr ''demo'')], \<lparr>files = [([''proj'', ''c.txt''], PStr ''OLD''), ([''proj'', ''a.txt''], PStr ''Hello X''),
                   ([''proj'', ''sub'', ''b.txt''], PStr ''demo'')],
          dirs = [[''proj'', ''sub''], [''proj'']]\<rparr>) \<and>
          map_of [(''b.txt'', PStr ''demo'')] ''b.txt'' = Some (Dict sub_changed))))"
proof -
  have run_a: "create_structure example_rt
      ([] @ (''a.txt'', Template ''Hello ${name}'') # [(''sub'', Dict [(''b.txt'', Tuple [Function ''package_name'', create])]), (''c.txt'', Tuple [PStr ''see'', NO_OVERWRITE])])
      [(''name'', PStr ''X''), (''package'', PStr ''demo'')] (PStr ''proj'')
      \<lparr>files = [([''proj'', ''c.txt''], PStr ''OLD'')], dirs = [[''proj'']]\<rparr>
    = (Inr ([(''a.txt'', PStr ''Hello X''), (''sub'', Dict [(''b.txt'', PStr ''demo'')])], [(''name'', PStr ''X''), (''package'', PStr ''demo'')]),
       \<lparr>files = [([''proj'', ''c.txt''], PStr ''OLD''), ([''proj'', ''a.txt''], PStr ''Hello X''),
                   ([''proj'', ''sub'', ''b.txt''], PStr ''demo'')],
          dirs = [[''proj'', ''sub''], [''proj'']]\<rparr>)"
    by (simp add: example_simps)
  have keys_a: "distinct (map fst ([] @ (''a.txt'', Template ''Hello ${name}'') # [(''sub'', Dict [(''b.txt'', Tuple [Function ''package_name'', create])]), (''c.txt'', Tuple [PStr ''see'', NO_OVERWRITE])]))"
    by simp
  have run_d: "create_structure example_rt
      ([(''a.txt'', Template ''Hello ${name}'')] @ (''sub'', Dict [(''b.txt'', Tuple [Function ''package_name'', create])]) # [(''c.txt'', Tuple [PStr ''see'', NO_OVERWRITE])])
      [(''name'', PStr ''X''), (''package'', PStr ''demo'')] (PStr ''proj'')
      \<lparr>files = [([''proj'', ''c.txt''], PStr ''OLD'')], dirs = [[''proj'']]\<rparr>
    = (Inr ([(''a.txt'', PStr ''Hello X''), (''sub'', Dict [(''b.txt'', PStr ''demo'')])], [(''name'', PStr ''X''), (''package'', PStr ''demo'')]),
       \<lparr>files = [([''proj'', ''c.txt''], PStr ''OLD''), ([''proj'', ''a.txt''], PStr ''Hello X''),
                   ([''proj'', ''sub'', ''b.txt''], PStr ''demo'')],
          dirs = [[''proj'', ''sub''], [''proj'']]\<rparr>)"
    by (simp add: example_simps)
  have keys_d: "distinct (map fst ([(''a.txt'', Template ''Hello ${name}'')] @ (''sub'', Dict [(''b.txt'', Tuple [Function ''package_name'', create])]) # [(''c.txt'', Tuple [PStr ''see'', NO_OVERWRITE])]))"
    by simp
  have run_c: "create_structure example_rt
      ([(''a.txt'', Template ''Hello ${name}''), (''sub'', Dict [(''b.txt'', Tuple [Function ''package_name'', create])])] @ (''c.txt'', Tuple [PStr ''see'', NO_OVERWRITE]) # [])
      [(''name'', PStr ''X''), (''package'', PStr ''demo'')] (PStr ''proj'')
      \<lparr>files = [([''proj'', ''c.txt''], PStr ''OLD'')], dirs = [[''proj'']]\<rparr>
    = (Inr ([(''a.txt'', PStr ''Hello X''), (''sub'', Dict [(''b.txt'', PStr ''demo'')])], [(''name'', PStr ''X''), (''package'', PStr ''demo'')]),
       \<lparr>files = [([''proj'', ''c.txt''], PStr ''OLD''), ([''proj'', ''a.txt''], PStr ''Hello X''),
                   ([''proj'', ''sub'', ''b.txt''], PStr ''demo'')],
          dirs = [[''proj'', ''sub''], [''proj'']]\<rparr>)"
    by (simp add: example_simps)
  have keys_c: "distinct (map fst ([(''a.txt'', Template ''Hello ${name}''), (''sub'', Dict [(''b.txt'', Tuple [Function ''package_name'', create])])] @ (''c.txt'', Tuple [PStr ''see'', NO_OVERWRITE]) # []))"
    by simp
  have run_b: "create_structure example_rt
      ([] @ (''b.txt'', Tuple [Function ''package_name'', create]) # [])
      [(''name'', PStr ''X''), (''package'', PStr ''demo'')] (PPath [''proj'', ''sub''])
      \<lparr>files = [([''proj'', ''c.txt''], PStr ''OLD''), ([''proj'', ''a.txt''], PStr ''Hello X'')],
          dirs = [[''proj'', ''sub''], [''proj'']]\<rparr>
    = (Inr ([(''b.txt'', PStr ''demo'')], [(''name'', PStr ''X''), (''package'', PStr ''demo'')]),
       \<lparr>files = [([''proj'', ''c.txt''], PStr ''OLD''), ([''proj'', ''a.txt''], PStr ''Hello X''),
                   ([''proj'', ''sub'', ''b.txt''], PStr ''demo'')],
          dirs = [[''proj'', ''sub''], [''proj'']]\<rparr>)"
    by (simp add: example_simps)
  have keys_b: "distinct (map fst ([] @ (''b.txt'', Tuple [Function ''package_name'', create]) # []))"
    by simp
  show ?thesis
    by (intro conjI run_a
      keys_a
      leaf_visit [OF run_a keys_a]
      run_d
      keys_d
      leaf_visit [OF run_d keys_d]
      run_c
      keys_c
      leaf_visit [OF run_c keys_c]
      run_b
      keys_b
      leaf_visit [OF run_b keys_b])
qed


section \<open>The shape of the changed tree\<close>

text \<open>The loop keeps the entry of every directory it has passed, since the keys of a
  dictionary are distinct; the run of a nested dictionary mirrors it by induction.\<close>

lemma dirs_kept_entry:
  "dirs_kept items changed \<Longrightarrow> (name, Dict sub) \<in> set items \<Longrightarrow>
   \<exists>sub_changed. map_of changed name = Some (Dict sub_changed) \<and> mirrors sub sub_changed"
  by (induction items) (auto simp: mirrors_def split: option.splits obj.splits)

lemma entry_mirrors_leaf: "\<not> isinstance_dict node \<Longrightarrow> entry_mirrors node entry"
  by (cases node) simp_all

lemma walk_dirs_kept:
  assumes sub: "\<And>name sub opts prefix w changed opts' w'.
      (name, Dict sub) \<in> set items \<Longrightarrow> wf_struct sub \<Longrightarrow>
      create_structure rt sub opts prefix w = (Inr (changed, opts'), w') \<Longrightarrow>
      mirrors sub changed"
    and wf: "wf_struct items"
    and run: "walk rt items opts prefix update pretend changed w = (Inr changed', w')"
  shows "dirs_kept items changed'"
  using assms
proof (induction items arbitrary: changed w)
  case Nil
  show ?case by simp
next
  case (Cons x items)
  obtain name node where x: "x = (name, node)" by (cases x)
  from Cons.prems(2) x have fresh: "name \<notin> fst ` set items" and node: "wf_node node"
    and wf: "wf_struct items"
    by simp_all
  have sub: "mirrors sub changed"
    if "(name, Dict sub) \<in> set items" "wf_struct sub"
      "create_structure rt sub opts prefix w = (Inr (changed, opts'), w')"
    for name sub opts prefix w changed opts' w'
    using that by (intro Cons.prems(1) [of name sub opts prefix w changed opts' w']) simp_all
  from Cons.prems(3) [unfolded x] show ?case
  proof (cases rule: walk_Cons_InrE)
    case (dir sub r w1 sub_changed opts' w2)
    from node dir(1) have "wf_struct sub" by simp
    with Cons.prems(1) [of name sub] dir(1,3) x have m: "mirrors sub sub_changed"
      by simp
    from walk_other_keys [OF dir(4) fresh]
    have "map_of changed' name = Some (Dict sub_changed)"
      by (simp add: update_conv')
    with m dir(1) have "entry_mirrors node (map_of changed' name)"
      by (simp add: mirrors_def)
    moreover from Cons.IH [OF sub wf dir(4)] have "dirs_kept items changed'" .
    ultimately show ?thesis by (simp add: x)
  next
    case (leaf template file_op content w1 r w2)
    from leaf(1) have "entry_mirrors node (map_of changed' name)"
      by (rule entry_mirrors_leaf)
    moreover from Cons.IH [OF sub wf leaf(5)] have "dirs_kept items changed'" .
    ultimately show ?thesis by (simp add: x)
  qed
qed

lemma create_structure_mirrors:
  "wf_struct struct \<Longrightarrow>
   create_structure rt struct opts prefix w = (Inr (changed, opts'), w') \<Longrightarrow>
   mirrors struct changed"
proof (induction struct arbitrary: opts prefix w changed opts' w' rule: dict_induct)
  case (1 struct)
  from "1.prems"(2) obtain p w0 where
    walk: "walk rt struct opts p
       (py_or (dict_get opts ''update'' PNone) (dict_get opts ''force'' PNone))
       (dict_get opts ''pretend'' PNone) [] w0 = (Inr changed, w')"
    by (rule create_structure_InrE)
  from walk_distinct [OF walk] walk_keys [OF walk]
  have "keys_within struct changed"
    by (simp add: keys_within_def)
  moreover from walk_dirs_kept [OF _ "1.prems"(1) walk] "1.IH"
  have "dirs_kept struct changed" by blast
  ultimately show ?case by (simp add: mirrors_def)
qed

text \<open>
  C3. In a run of \<^verbatim>\<open>create_structure\<close> that returns, the changed tree mirrors the
  structure: on every level of nesting its keys are keys of the structure on that level,
  and every key of the structure whose value is a dictionary is a key of the changed tree
  whose value is a dictionary (an empty one where nothing below it changed) that mirrors
  it in turn.
\<close>

theorem changed_tree_mirrors_structure:
  assumes "wf_struct struct"
    and "create_structure rt struct opts prefix w = (Inr (changed, opts'), w')"
  shows "mirrors struct changed \<and>
    fst ` set changed \<subseteq> fst ` set struct \<and>
    (\<forall>name sub. (name, Dict sub) \<in> set struct \<longrightarrow>
       (\<exists>sub_changed. map_of changed name = Some (Dict sub_changed) \<and>
          mirrors sub sub_changed))"
proof -
  from assms have m: "mirrors struct changed"
    by (rule create_structure_mirrors)
  then have "fst ` set changed \<subseteq> fst ` set struct"
    by (simp add: mirrors_def keys_within_def)
  moreover from m have "\<exists>sub_changed. map_of changed name = Some (Dict sub_changed) \<and>
          mirrors sub sub_changed" if "(name, Dict sub) \<in> set struct" for name sub
    using that by (auto simp: mirrors_def dest: dirs_kept_entry)
  ultimately show ?thesis using m by blast
qed

theorem changed_tree_mirrors_structure_witness:
  "wf_struct [(''a.txt'', Tuple [PStr ''hello'', create]),
              (''sub'', Dict [(''b.txt'', Tuple [Template ''${name}'', NO_OVERWRITE])])] \<and>
   create_structure example_rt
       [(''a.txt'', Tuple [PStr ''hello'', create]),
        (''sub'', Dict [(''b.txt'', Tuple [Template ''${name}'', NO_OVERWRITE])])]
       [(''name'', PStr ''X'')] (PStr ''proj'')
       \<lparr>files = [([''proj'', ''sub'', ''b.txt''], PStr ''OLD'')],
        dirs = [[''proj'', ''sub''], [''proj'']]\<rparr>
     = (Inr ([(''a.txt'', PStr ''hello''), (''sub'', Dict [])], [(''name'', PStr ''X'')]),
        \<lparr>files = [([''proj'', ''sub'', ''b.txt''], PStr ''OLD''),
                  ([''proj'', ''a.txt''], PStr ''hello'')],
         dirs = [[''proj'', ''sub''], [''proj'']]\<rparr>) \<and>
   mirrors [(''a.txt'', Tuple [PStr ''hello'', create]),
            (''sub'', Dict [(''b.txt'', Tuple [Template ''${name}'', NO_OVERWRITE])])]
     [(''a.txt'', PStr ''hello''), (''sub'', Dict [])] \<and>
   map_of [(''a.txt'', PStr ''hello''), (''sub'', Dict [])] ''sub'' = Some (Dict [])"
proof -
  have wf: "wf_struct [(''a.txt'', Tuple [PStr ''hello'', create]),
              (''sub'', Dict [(''b.txt'', Tuple [Template ''${name}'', NO_OVERWRITE])])]"
    by simp
  have run: "create_structure example_rt
       [(''a.txt'', Tuple [PStr ''hello'', create]),
        (''sub'', Dict [(''b.txt'', Tuple [Template ''${name}'', NO_OVERWRITE])])]
       [(''name'', PStr ''X'')] (PStr ''proj'')
       \<lparr>files = [([''proj'', ''sub'', ''b.txt''], PStr ''OLD'')],
        dirs = [[''proj'', ''sub''], [''proj'']]\<rparr>
     = (Inr ([(''a.txt'', PStr ''hello''), (''sub'', Dict [])], [(''name'', PStr ''X'')]),
        \<lparr>files = [([''proj'', ''sub'', ''b.txt''], PStr ''OLD''),
                  ([''proj'', ''a.txt''], PStr ''hello'')],
         dirs = [[''proj'', ''sub''], [''proj'']]\<rparr>)"
    by (simp add: example_simps)
  from changed_tree_mirrors_structure [OF wf run] wf run show ?thesis
    by simp
qed


section \<open>The calls of the directory collaborator\<close>

text \<open>
  Under the logged runtime every step returns what it returns under the runtime itself and
  extends the log: \<^verbatim>\<open>create_directory\<close> by its call, the call of an object by an event
  that is no directory call.
\<close>

lemma dir_calls_append: "dir_calls (xs @ ys) = dir_calls xs @ dir_calls ys"
  by (induction xs rule: dir_calls.induct) simp_all

lemma emits_none: "emits tr tr ok []"
  by (simp add: emits_def)

lemma emits_stop: "emits tr tr' ok xs \<Longrightarrow> emits tr tr' False (xs @ ys)"
  by (auto simp: emits_def)

lemma emits_then: "emits tr tr1 True xs \<Longrightarrow> emits tr1 tr2 ok ys \<Longrightarrow> emits tr tr2 ok (xs @ ys)"
  by (auto simp: emits_def dir_calls_append)

lemma emits_dir: "emits tr (tr @ [DirCall path update pretend]) ok [(path, update, pretend)]"
  by (simp add: emits_def)

lemma emits_obj: "emits tr (tr @ [ObjCall f args]) ok []"
  by (simp add: emits_def)

lemma logged_create_directory:
  "create_directory (logged rt) path update pretend (w, tr) =
    (case create_directory rt path update pretend w of
       (r, w') \<Rightarrow> (r, (w', tr @ [DirCall path update pretend])))"
  by (simp add: logged_def)

lemma logged_py_call:
  "py_call (logged rt) f args (w, tr) = (r, (w', tr')) \<Longrightarrow>
   py_call rt f args w = (r, w') \<and> emits tr tr' ok []"
  by (cases f) (auto simp: logged_def emits_none emits_obj split: prod.splits)

lemma logged_reify_content:
  assumes "reify_content (logged rt) content opts (w, tr) = (r, (w', tr'))"
  shows "reify_content rt content opts w = (r, w') \<and> emits tr tr' ok []"
proof (cases "callable content")
  case True
  with assms have "py_call (logged rt) content [Dict opts] (w, tr) = (r, (w', tr'))"
    by (simp add: reify_content_def)
  from logged_py_call [OF this] True show ?thesis
    by (simp add: reify_content_def)
next
  case False
  with assms show ?thesis
    by (cases content) (auto simp: reify_content_def logged_def emits_none)
qed

text \<open>
  The loop and the whole run under the logged runtime: the result and the world are those
  of the run itself, and the directory calls are those of the structure, up to the point
  where the run stops.
\<close>

lemma walk_dirs_Nil: "walk_dirs p update pretend [] = []"
  by (simp add: walk_dirs_def)

lemma walk_dirs_Dict:
  "walk_dirs p update pretend ((name, Dict sub) # rest) =
     [(PPath (joinpath p name), update, pretend)]
       @ walk_dirs (joinpath p name) update pretend sub @ walk_dirs p update pretend rest"
  by (simp add: walk_dirs_def)

lemma walk_dirs_leaf:
  "\<not> isinstance_dict node \<Longrightarrow>
   walk_dirs p update pretend ((name, node) # rest) = walk_dirs p update pretend rest"
  by (cases node) (simp_all add: walk_dirs_def)

lemma logged_walk:
  assumes sub: "\<And>name sub prefix w tr r w' tr'.
      (name, Dict sub) \<in> set items \<Longrightarrow>
      create_structure (logged rt) sub opts (PPath prefix) (w, tr) = (r, (w', tr')) \<Longrightarrow>
      create_structure rt sub opts (PPath prefix) w = (r, w') \<and>
      emits tr tr' (\<not> isl r) (walk_dirs prefix update pretend sub)"
    and run: "walk (logged rt) items opts p update pretend changed (w, tr) = (r, (w', tr'))"
  shows "walk rt items opts p update pretend changed w = (r, w') \<and>
         emits tr tr' (\<not> isl r) (walk_dirs p update pretend items)"
  using assms
proof (induction items arbitrary: changed w tr)
  case Nil
  then show ?case by (simp add: walk_dirs_Nil emits_none)
next
  case (Cons x items)
  obtain name node where x: "x = (name, node)" by (cases x)
  have sub: "create_structure rt sub opts (PPath prefix) w = (r, w') \<and>
      emits tr tr' (\<not> isl r) (walk_dirs prefix update pretend sub)"
    if "(name, Dict sub) \<in> set items"
      "create_structure (logged rt) sub opts (PPath prefix) (w, tr) = (r, (w', tr'))"
    for name sub prefix w tr r w' tr'
    using that by (intro Cons.prems(1) [of name sub prefix w tr r w' tr']) simp_all
  have IH: "walk rt items opts p update pretend c w = (r, w') \<and>
      emits tr tr' (\<not> isl r) (walk_dirs p update pretend items)"
    if "walk (logged rt) items opts p update pretend c (w, tr) = (r, (w', tr'))" for c w tr
    by (rule Cons.IH [OF _ that]) (rule sub, assumption+)
  let ?path = "joinpath p name"
  show ?case
  proof (cases "isinstance_dict node")
    case True
    then obtain d where node: "node = Dict d" by (cases node) simp_all
    obtain r1 w1 where mk: "create_directory rt (PPath ?path) update pretend w = (r1, w1)"
      by (cases "create_directory rt (PPath ?path) update pretend w")
    let ?tr1 = "tr @ [DirCall (PPath ?path) update pretend]"
    have e1: "emits tr ?tr1 ok [(PPath ?path, update, pretend)]" for ok
      by (rule emits_dir)
    show ?thesis
    proof (cases r1)
      case (Inl e)
      with Cons.prems(2) mk have "r = Inl e" "w' = w1" "tr' = ?tr1"
        by (simp_all add: x node walk_Dict logged_create_directory)
      with mk Inl emits_stop [OF e1] show ?thesis
        by (simp add: x node walk_Dict walk_dirs_Dict)
    next
      case (Inr v)
      obtain r2 w2 tr2 where
        cs: "create_structure (logged rt) d opts (PPath ?path) (w1, ?tr1) = (r2, (w2, tr2))"
        by (cases "create_structure (logged rt) d opts (PPath ?path) (w1, ?tr1)") auto
      from Cons.prems(1) [of name d ?path w1 ?tr1 r2 w2 tr2] cs
      have cs': "create_structure rt d opts (PPath ?path) w1 = (r2, w2)"
        and e2: "emits ?tr1 tr2 (\<not> isl r2) (walk_dirs ?path update pretend d)"
        by (simp_all add: x node)
      show ?thesis
      proof (cases r2)
        case (Inl e)
        with Cons.prems(2) mk Inr cs have "r = Inl e" "w' = w2" "tr' = tr2"
          by (simp_all add: x node walk_Dict logged_create_directory)
        moreover from e2 Inl have "emits ?tr1 tr2 False (walk_dirs ?path update pretend d)"
          by simp
        from emits_stop [OF emits_then [OF e1 this]]
        have "emits tr tr2 False (walk_dirs p update pretend ((name, Dict d) # items))"
          by (simp add: walk_dirs_Dict)
        ultimately show ?thesis using mk \<open>r1 = Inr v\<close> cs' Inl
          by (simp add: x node walk_Dict)
      next
        case (Inr res)
        obtain sub_changed opts' where res: "res = (sub_changed, opts')" by (cases res)
        with Cons.prems(2) mk \<open>r1 = Inr v\<close> cs Inr
        have rest: "walk (logged rt) items opts p update pretend
                      (AList.update name (Dict sub_changed) changed) (w2, tr2) = (r, (w', tr'))"
          by (simp add: x node walk_Dict logged_create_directory)
        from IH [OF rest]
        have rest': "walk rt items opts p update pretend
                      (AList.update name (Dict sub_changed) changed) w2 = (r, w')"
          and e3: "emits tr2 tr' (\<not> isl r) (walk_dirs p update pretend items)"
          by simp_all
        from e2 Inr have "emits ?tr1 tr2 True (walk_dirs ?path update pretend d)"
          by simp
        from emits_then [OF emits_then [OF e1 this] e3]
        have "emits tr tr' (\<not> isl r) (walk_dirs p update pretend ((name, Dict d) # items))"
          by (simp add: walk_dirs_Dict)
        with mk \<open>r1 = Inr v\<close> cs' Inr res rest' show ?thesis
          by (simp add: x node walk_Dict)
      qed
    qed
  next
    case False
    note leaf = walk_leaf [OF False] walk_dirs_leaf [OF False]
    show ?thesis
    proof (cases "unpack2 (structure_leaf node)")
      case (Inl e)
      with Cons.prems(2) have "r = Inl e" "w' = w" "tr' = tr"
        by (simp_all add: x leaf)
      moreover from emits_stop [OF emits_none]
      have "emits tr tr False (walk_dirs p update pretend items)"
        by simp
      ultimately show ?thesis using Inl
        by (simp add: x leaf)
    next
      case (Inr pair)
      obtain template file_op where pair: "pair = (template, file_op)" by (cases pair)
      obtain r1 w1 tr1 where
        re: "reify_content (logged rt) template opts (w, tr) = (r1, (w1, tr1))"
        by (cases "reify_content (logged rt) template opts (w, tr)") auto
      from logged_reify_content [OF re]
      have re': "reify_content rt template opts w = (r1, w1)"
        and e1: "emits tr tr1 True []"
        by simp_all
      show ?thesis
      proof (cases r1)
        case (Inl e)
        with Cons.prems(2) Inr pair re have "r = Inl e" "w' = w1" "tr' = tr1"
          by (simp_all add: x leaf)
        with Inr pair re' Inl emits_stop [OF e1] show ?thesis
          by (simp add: x leaf)
      next
        case (Inr content)
        obtain r2 w2 tr2 where
          op: "py_call (logged rt) file_op [PPath ?path, content, Dict opts] (w1, tr1)
                 = (r2, (w2, tr2))"
          by (cases "py_call (logged rt) file_op [PPath ?path, content, Dict opts] (w1, tr1)")
            auto
        from logged_py_call [OF op]
        have op': "py_call rt file_op [PPath ?path, content, Dict opts] w1 = (r2, w2)"
          and e2: "emits tr1 tr2 True []"
          by simp_all
        from emits_then [OF e1 e2] have e12: "emits tr tr2 True []" by simp
        show ?thesis
        proof (cases r2)
          case (Inl e)
          with Cons.prems(2) \<open>unpack2 (structure_leaf node) = Inr pair\<close> pair re
            \<open>r1 = Inr content\<close> op
          have "r = Inl e" "w' = w2" "tr' = tr2"
            by (simp_all add: x leaf)
          with \<open>unpack2 (structure_leaf node) = Inr pair\<close> pair re' \<open>r1 = Inr content\<close>
            op' Inl emits_stop [OF e12]
          show ?thesis
            by (simp add: x leaf)
        next
          case (Inr v)
          let ?changed = "if truthy v then AList.update name content changed else changed"
          from Cons.prems(2) \<open>unpack2 (structure_leaf node) = Inr pair\<close> pair re
            \<open>r1 = Inr content\<close> op Inr
          have rest: "walk (logged rt) items opts p update pretend ?changed (w2, tr2)
                        = (r, (w', tr'))"
            by (simp add: x leaf)
          from IH [OF rest]
          have rest': "walk rt items opts p update pretend ?changed w2 = (r, w')"
            and e3: "emits tr2 tr' (\<not> isl r) (walk_dirs p update pretend items)"
            by simp_all
          from emits_then [OF e12 e3]
          have "emits tr tr' (\<not> isl r) (walk_dirs p update pretend items)"
            by simp
          with \<open>unpack2 (structure_leaf node) = Inr pair\<close> pair re' \<open>r1 = Inr content\<close>
            op' Inr rest'
          show ?thesis
            by (simp add: x leaf)
        qed
      qed
    qed
  qed
qed


lemma logged_enter:
  assumes "enter (logged rt) opts prefix (w, tr) = (r, (w', tr'))"
  shows "enter rt opts prefix w = (r, w') \<and>
    tr' = tr @ (if prefix = PNone
                then [DirCall (dict_get opts ''project_path'' (PStr ''.''))
                        (py_or (dict_get opts ''update'' PNone) (dict_get opts ''force'' PNone))
                        (dict_get opts ''pretend'' PNone)]
                else [])"
  using assms
  by (auto simp: enter_def logged_create_directory split: if_splits prod.splits sum.splits)

lemma logged_create_structure:
  "create_structure (logged rt) struct opts prefix (w, tr) = (r, (w', tr')) \<Longrightarrow>
   create_structure rt struct opts prefix w = (r, w') \<and>
   emits tr tr' (\<not> isl r) (structure_dirs opts prefix struct)"
proof (induction struct arbitrary: prefix w tr r w' tr' rule: dict_induct)
  case (1 struct)
  let ?update = "py_or (dict_get opts ''update'' PNone) (dict_get opts ''force'' PNone)"
  let ?pretend = "dict_get opts ''pretend'' PNone"
  let ?root = "dict_get opts ''project_path'' (PStr ''.'')"
  let ?first = "if prefix = PNone then [(?root, ?update, ?pretend)] else []"
  obtain r0 w0 tr0 where en: "enter (logged rt) opts prefix (w, tr) = (r0, (w0, tr0))"
    by (cases "enter (logged rt) opts prefix (w, tr)") auto
  from logged_enter [OF en] have en': "enter rt opts prefix w = (r0, w0)"
    and tr0: "tr0 = tr @ (if prefix = PNone then [DirCall ?root ?update ?pretend] else [])"
    by simp_all
  from tr0 have e0: "emits tr tr0 ok ?first" for ok
    by (simp add: emits_def)
  show ?case
  proof (cases r0)
    case (Inl e)
    with "1.prems" en have "r = Inl e" "w' = w0" "tr' = tr0"
      by (simp_all add: create_structure_enter)
    moreover from emits_stop [OF e0]
    have "emits tr tr0 False (structure_dirs opts prefix struct)"
      by (simp add: structure_dirs_def Let_def)
    ultimately show ?thesis using en' Inl
      by (simp add: create_structure_enter)
  next
    case (Inr p)
    from enter_Inr [OF en' [unfolded Inr]]
    have dirs: "structure_dirs opts prefix struct = ?first @ walk_dirs p ?update ?pretend struct"
      by (simp add: structure_dirs_def Let_def)
    obtain r1 w1 tr1 where
      wk: "walk (logged rt) struct opts p ?update ?pretend [] (w0, tr0) = (r1, (w1, tr1))"
      by (cases "walk (logged rt) struct opts p ?update ?pretend [] (w0, tr0)") auto
    have sub: "create_structure rt sub opts (PPath q) w = (r, w') \<and>
        emits tr tr' (\<not> isl r) (walk_dirs q ?update ?pretend sub)"
      if "(name, Dict sub) \<in> set struct"
        "create_structure (logged rt) sub opts (PPath q) (w, tr) = (r, (w', tr'))"
      for name sub q w tr r w' tr'
      using "1.IH" [OF that] by (simp add: structure_dirs_def Let_def)
    have "walk rt struct opts p ?update ?pretend [] w0 = (r1, w1) \<and>
        emits tr0 tr1 (\<not> isl r1) (walk_dirs p ?update ?pretend struct)"
      by (rule logged_walk [OF _ wk]) (rule sub, assumption+)
    then have wk': "walk rt struct opts p ?update ?pretend [] w0 = (r1, w1)"
      and e1: "emits tr0 tr1 (\<not> isl r1) (walk_dirs p ?update ?pretend struct)"
      by simp_all
    from emits_then [OF e0 e1] dirs
    have e: "emits tr tr1 (\<not> isl r1) (structure_dirs opts prefix struct)"
      by simp
    show ?thesis
    proof (cases r1)
      case (Inl e')
      with "1.prems" en Inr wk have "r = Inl e'" "w' = w1" "tr' = tr1"
        by (simp_all add: create_structure_enter)
      with en' Inr wk' Inl e show ?thesis
        by (simp add: create_structure_enter)
    next
      case (Inr changed)
      with "1.prems" en \<open>r0 = Inr p\<close> wk have "r = Inr (changed, opts)" "w' = w1" "tr' = tr1"
        by (simp_all add: create_structure_enter)
      with en' \<open>r0 = Inr p\<close> wk' Inr e show ?thesis
        by (simp add: create_structure_enter)
    qed
  qed
qed

lemma emits_extends: "emits tr tr' ok expected \<Longrightarrow> \<exists>evs. tr' = tr @ evs"
  by (auto simp: emits_def)

lemma emits_subset: "emits [] tr ok expected \<Longrightarrow> set (dir_calls tr) \<subseteq> set expected"
  by (auto simp: emits_def)

lemma structure_dirs_flags:
  "(path, update, pretend) \<in> set (structure_dirs opts prefix struct) \<Longrightarrow>
   update = py_or (dict_get opts ''update'' PNone) (dict_get opts ''force'' PNone) \<and>
   pretend = dict_get opts ''pretend'' PNone"
  by (auto simp: structure_dirs_def walk_dirs_def Let_def split: if_splits sum.splits)

text \<open>
  C6. On the outermost call the first thing a run does is to call
  \<^verbatim>\<open>create_directory\<close> for the project root, with the flag \<^verbatim>\<open>update or force\<close>: the
  flag is true exactly when one of the two options is, and for two booleans it is their
  disjunction. The logged run is the run itself.
\<close>

theorem root_directory_flag:
  "(\<exists>r w' rest.
      create_structure (logged rt) struct opts PNone (w, [])
        = (r, (w', DirCall (dict_get opts ''project_path'' (PStr ''.''))
                     (py_or (dict_get opts ''update'' PNone) (dict_get opts ''force'' PNone))
                     (dict_get opts ''pretend'' PNone) # rest)) \<and>
      create_structure rt struct opts PNone w = (r, w')) \<and>
   truthy (py_or (dict_get opts ''update'' PNone) (dict_get opts ''force'' PNone))
     = (truthy (dict_get opts ''update'' PNone) \<or> truthy (dict_get opts ''force'' PNone)) \<and>
   py_or (PBool update) (PBool force) = PBool (update \<or> force)"
proof -
  let ?update = "py_or (dict_get opts ''update'' PNone) (dict_get opts ''force'' PNone)"
  let ?pretend = "dict_get opts ''pretend'' PNone"
  let ?root = "dict_get opts ''project_path'' (PStr ''.'')"
  obtain r w' tr where run: "create_structure (logged rt) struct opts PNone (w, []) = (r, (w', tr))"
    by (cases "create_structure (logged rt) struct opts PNone (w, [])") auto
  obtain r0 w0 tr0 where en: "enter (logged rt) opts PNone (w, []) = (r0, (w0, tr0))"
    by (cases "enter (logged rt) opts PNone (w, [])") auto
  from logged_enter [OF en] have tr0: "tr0 = [DirCall ?root ?update ?pretend]"
    by simp
  have "\<exists>rest. tr = DirCall ?root ?update ?pretend # rest"
  proof (cases r0)
    case (Inl e)
    with run en have "tr = tr0"
      by (simp add: create_structure_enter)
    with tr0 show ?thesis by simp
  next
    case (Inr p)
    obtain r1 w1 tr1 where
      wk: "walk (logged rt) struct opts p ?update ?pretend [] (w0, tr0) = (r1, (w1, tr1))"
      by (cases "walk (logged rt) struct opts p ?update ?pretend [] (w0, tr0)") auto
    have "walk rt struct opts p ?update ?pretend [] w0 = (r1, w1) \<and>
        emits tr0 tr1 (\<not> isl r1) (walk_dirs p ?update ?pretend struct)"
    proof (rule logged_walk [OF _ wk])
      fix name sub q w tr r w' tr'
      assume "create_structure (logged rt) sub opts (PPath q) (w, tr) = (r, (w', tr'))"
      from logged_create_structure [OF this]
      show "create_structure rt sub opts (PPath q) w = (r, w') \<and>
        emits tr tr' (\<not> isl r) (walk_dirs q ?update ?pretend sub)"
        by (simp add: structure_dirs_def Let_def)
    qed
    then obtain evs where "tr1 = tr0 @ evs"
      by (auto dest: emits_extends)
    moreover from run en Inr wk have "tr = tr1"
      by (auto simp: create_structure_enter split: sum.splits)
    ultimately show ?thesis using tr0 by simp
  qed
  with run logged_create_structure [OF run] show ?thesis
    by (auto simp: py_or_def)
qed

theorem root_directory_flag_witness:
  "\<exists>r w' rest.
      create_structure (logged example_rt) [(''a.txt'', PStr ''hello'')]
          [(''force'', PBool True)] PNone (empty_disk, [])
        = (r, (w', DirCall (PStr ''.'') (PBool True) PNone # rest)) \<and>
      create_structure example_rt [(''a.txt'', PStr ''hello'')]
          [(''force'', PBool True)] PNone empty_disk = (r, w')"
  using root_directory_flag
    [of example_rt "[(''a.txt'', PStr ''hello'')]" "[(''force'', PBool True)]" empty_disk]
  by (simp add: dict_get_def py_or_def)

text \<open>
  C9. Every call of \<^verbatim>\<open>create_directory\<close> in a run, for the root and for a nested
  directory alike, gets the same flag \<^verbatim>\<open>update or force\<close> and the same
  \<^verbatim>\<open>pretend\<close>; a run that returns has made one such call for the root (on the
  outermost call) and one for every directory of the structure, in the order of the walk.
\<close>

theorem directory_calls_share_flag:
  assumes "create_structure (logged rt) struct opts prefix (w, []) = (r, (w', tr))"
  shows "create_structure rt struct opts prefix w = (r, w') \<and>
    (\<forall>(path, update, pretend) \<in> set (dir_calls tr).
        update = py_or (dict_get opts ''update'' PNone) (dict_get opts ''force'' PNone) \<and>
        pretend = dict_get opts ''pretend'' PNone) \<and>
    (\<forall>p. \<not> isl r \<and>
         Path (if prefix = PNone then dict_get opts ''project_path'' (PStr ''.'') else prefix)
           = Inr p \<longrightarrow>
       dir_calls tr =
         (if prefix = PNone
          then [(dict_get opts ''project_path'' (PStr ''.''),
                 py_or (dict_get opts ''update'' PNone) (dict_get opts ''force'' PNone),
                 dict_get opts ''pretend'' PNone)]
          else [])
         @ map (\<lambda>q. (PPath q,
                      py_or (dict_get opts ''update'' PNone) (dict_get opts ''force'' PNone),
                      dict_get opts ''pretend'' PNone))
             (dirs_in p struct))"
proof -
  from logged_create_structure [OF assms]
  have same: "create_structure rt struct opts prefix w = (r, w')"
    and e: "emits [] tr (\<not> isl r) (structure_dirs opts prefix struct)"
    by simp_all
  from emits_subset [OF e] have flags:
    "\<forall>(path, update, pretend) \<in> set (dir_calls tr).
        update = py_or (dict_get opts ''update'' PNone) (dict_get opts ''force'' PNone) \<and>
        pretend = dict_get opts ''pretend'' PNone"
    by (auto dest: structure_dirs_flags)
  from e have "dir_calls tr = structure_dirs opts prefix struct" if "\<not> isl r"
    using that by (auto simp: emits_def)
  then have all: "dir_calls tr =
         (if prefix = PNone
          then [(dict_get opts ''project_path'' (PStr ''.''),
                 py_or (dict_get opts ''update'' PNone) (dict_get opts ''force'' PNone),
                 dict_get opts ''pretend'' PNone)]
          else [])
         @ map (\<lambda>q. (PPath q,
                      py_or (dict_get opts ''update'' PNone) (dict_get opts ''force'' PNone),
                      dict_get opts ''pretend'' PNone))
             (dirs_in p struct)"
    if "\<not> isl r" "Path (if prefix = PNone then dict_get opts ''project_path'' (PStr ''.'')
                           else prefix) = Inr p" for p
    using that by (simp add: structure_dirs_def walk_dirs_def Let_def)
  from same flags all show ?thesis by blast
qed

theorem directory_calls_share_flag_witness:
  "create_structure (logged example_rt)
       [(''a.txt'', Tuple [PStr ''hello'', create]),
        (''sub'', Dict [(''deep'', Dict []), (''b.txt'', PStr ''bee'')])]
       [(''force'', PBool True)] PNone (empty_disk, [])
     = (Inr ([(''a.txt'', PStr ''hello''),
              (''sub'', Dict [(''deep'', Dict []), (''b.txt'', PStr ''bee'')])],
             [(''force'', PBool True)]),
        \<lparr>files = [([''.'', ''a.txt''], PStr ''hello''), ([''.'', ''sub'', ''b.txt''], PStr ''bee'')],
           dirs = [[''.'', ''sub'', ''deep''], [''.'', ''sub''], [''.'']]\<rparr>,
        [DirCall (PStr ''.'') (PBool True) PNone,
         ObjCall ''create'' [PPath [''.'', ''a.txt''], PStr ''hello'', Dict [(''force'', PBool True)]],
         DirCall (PPath [''.'', ''sub'']) (PBool True) PNone,
         DirCall (PPath [''.'', ''sub'', ''deep'']) (PBool True) PNone,
         ObjCall ''create''
           [PPath [''.'', ''sub'', ''b.txt''], PStr ''bee'', Dict [(''force'', PBool True)]]]) \<and>
   dir_calls
       [DirCall (PStr ''.'') (PBool True) PNone,
         ObjCall ''create'' [PPath [''.'', ''a.txt''], PStr ''hello'', Dict [(''force'', PBool True)]],
         DirCall (PPath [''.'', ''sub'']) (PBool True) PNone,
         DirCall (PPath [''.'', ''sub'', ''deep'']) (PBool True) PNone,
         ObjCall ''create''
           [PPath [''.'', ''sub'', ''b.txt''], PStr ''bee'', Dict [(''force'', PBool True)]]]
     = [(PStr ''.'', PBool True, PNone),
        (PPath [''.'', ''sub''], PBool True, PNone),
        (PPath [''.'', ''sub'', ''deep''], PBool True, PNone)]"
proof -
  have run: "create_structure (logged example_rt)
       [(''a.txt'', Tuple [PStr ''hello'', create]),
        (''sub'', Dict [(''deep'', Dict []), (''b.txt'', PStr ''bee'')])]
       [(''force'', PBool True)] PNone (empty_disk, [])
     = (Inr ([(''a.txt'', PStr ''hello''),
              (''sub'', Dict [(''deep'', Dict []), (''b.txt'', PStr ''bee'')])],
             [(''force'', PBool True)]),
        \<lparr>files = [([''.'', ''a.txt''], PStr ''hello''), ([''.'', ''sub'', ''b.txt''], PStr ''bee'')],
           dirs = [[''.'', ''sub'', ''deep''], [''.'', ''sub''], [''.'']]\<rparr>,
        [DirCall (PStr ''.'') (PBool True) PNone,
         ObjCall ''create'' [PPath [''.'', ''a.txt''], PStr ''hello'', Dict [(''force'', PBool True)]],
         DirCall (PPath [''.'', ''sub'']) (PBool True) PNone,
         DirCall (PPath [''.'', ''sub'', ''deep'']) (PBool True) PNone,
         ObjCall ''create''
           [PPath [''.'', ''sub'', ''b.txt''], PStr ''bee'', Dict [(''force'', PBool True)]]])"
    by (simp add: example_simps logged_def)
  from directory_calls_share_flag [OF run] run show ?thesis
    by (simp add: dict_get_def py_or_def joinpath_def)
qed


section \<open>The default structure\<close>

text \<open>
  C7. In the structure that \<^verbatim>\<open>define_structure\<close> builds, the write policy of every
  file is the one listed here: \<^verbatim>\<open>no_overwrite\<close> for \<^verbatim>\<open>.gitignore\<close>,
  \<^verbatim>\<open>README.rst\<close>, \<^verbatim>\<open>AUTHORS.rst\<close>, \<^verbatim>\<open>LICENSE.txt\<close>, \<^verbatim>\<open>CHANGELOG.rst\<close>,
  \<^verbatim>\<open>setup.cfg\<close>, \<^verbatim>\<open>.coveragerc\<close> (and for \<^verbatim>\<open>tests/conftest.py\<close> and
  \<^verbatim>\<open>docs/index.rst\<close>), \<^verbatim>\<open>skip_on_update\<close> for \<^verbatim>\<open>skeleton.py\<close> and
  \<^verbatim>\<open>test_skeleton.py\<close>, and the unconditional \<^verbatim>\<open>create\<close> for \<^verbatim>\<open>setup.py\<close> and
  the remaining files.
\<close>

theorem default_structure_policies:
  assumes "map_of opts ''package'' = Some (PStr package)"
  shows "\<exists>struct. define_structure text prev opts = Inr (struct, opts) \<and>
    map (\<lambda>(path, node). (path, file_op_of node)) (leaves_in [] struct) =
      [([''.gitignore''], Inr NO_OVERWRITE),
       ([''src'', package, ''__init__.py''], Inr create),
       ([''src'', package, ''skeleton.py''], Inr SKIP_ON_UPDATE),
       ([''tests'', ''conftest.py''], Inr NO_OVERWRITE),
       ([''tests'', ''test_skeleton.py''], Inr SKIP_ON_UPDATE),
       ([''docs'', ''conf.py''], Inr create),
       ([''docs'', ''authors.rst''], Inr create),
       ([''docs'', ''index.rst''], Inr NO_OVERWRITE),
       ([''docs'', ''license.rst''], Inr create),
       ([''docs'', ''changelog.rst''], Inr create),
       ([''docs'', ''Makefile''], Inr create),
       ([''docs'', ''_static'', ''.gitignore''], Inr create),
       ([''README.rst''], Inr NO_OVERWRITE),
       ([''AUTHORS.rst''], Inr NO_OVERWRITE),
       ([''LICENSE.txt''], Inr NO_OVERWRITE),
       ([''CHANGELOG.rst''], Inr NO_OVERWRITE),
       ([''setup.py''], Inr create),
       ([''setup.cfg''], Inr NO_OVERWRITE),
       ([''.coveragerc''], Inr NO_OVERWRITE)] \<and>
    create \<noteq> NO_OVERWRITE \<and> create \<noteq> SKIP_ON_UPDATE \<and> NO_OVERWRITE \<noteq> SKIP_ON_UPDATE"
  using assms
  by (simp add: define_structure_def file_op_of_def joinpath_def get_template_def
      templates_init_def
      templates_license_def templates_setup_cfg_def create_def NO_OVERWRITE_def
      SKIP_ON_UPDATE_def)

theorem default_structure_policies_witness:
  "map_of [(''package'', PStr ''demo'')] ''package'' = Some (PStr ''demo'') \<and>
   (\<exists>struct.
      define_structure (\<lambda>name. name) PNone [(''package'', PStr ''demo'')]
        = Inr (struct, [(''package'', PStr ''demo'')]) \<and>
      map (\<lambda>(path, node). (path, file_op_of node)) (leaves_in [] struct) =
      [([''.gitignore''], Inr NO_OVERWRITE),
       ([''src'', ''demo'', ''__init__.py''], Inr create),
       ([''src'', ''demo'', ''skeleton.py''], Inr SKIP_ON_UPDATE),
       ([''tests'', ''conftest.py''], Inr NO_OVERWRITE),
       ([''tests'', ''test_skeleton.py''], Inr SKIP_ON_UPDATE),
       ([''docs'', ''conf.py''], Inr create),
       ([''docs'', ''authors.rst''], Inr create),
       ([''docs'', ''index.rst''], Inr NO_OVERWRITE),
       ([''docs'', ''license.rst''], Inr create),
       ([''docs'', ''changelog.rst''], Inr create),
       ([''docs'', ''Makefile''], Inr create),
       ([''docs'', ''_static'', ''.gitignore''], Inr create),
       ([''README.rst''], Inr NO_OVERWRITE),
       ([''AUTHORS.rst''], Inr NO_OVERWRITE),
       ([''LICENSE.txt''], Inr NO_OVERWRITE),
       ([''CHANGELOG.rst''], Inr NO_OVERWRITE),
       ([''setup.py''], Inr create),
       ([''setup.cfg''], Inr NO_OVERWRITE),
       ([''.coveragerc''], Inr NO_OVERWRITE)] \<and>
    create \<noteq> NO_OVERWRITE \<and> create \<noteq> SKIP_ON_UPDATE \<and> NO_OVERWRITE \<noteq> SKIP_ON_UPDATE)"
proof -
  have h: "map_of [(''package'', PStr ''demo'')] ''package'' = Some (PStr ''demo'')"
    by simp
  show ?thesis
    by (rule conjI [OF h default_structure_policies [OF h]])
qed

text \<open>
  C10. \<^verbatim>\<open>define_structure\<close> does not look at its first argument, and the options it
  returns are the options it was given.
\<close>

theorem define_structure_ignores_previous:
  "define_structure text s1 opts = define_structure text s2 opts \<and>
   (\<forall>struct opts'. define_structure text s1 opts = Inr (struct, opts') \<longrightarrow> opts' = opts)"
  by (auto simp: define_structure_def split: option.splits obj.splits)

theorem define_structure_ignores_previous_witness:
  "define_structure (\<lambda>name. name) PNone [(''package'', PStr ''demo''), (''update'', PBool True)]
     = define_structure (\<lambda>name. name) (Dict [(''old'', PStr ''x'')])
         [(''package'', PStr ''demo''), (''update'', PBool True)] \<and>
   (\<exists>struct. define_structure (\<lambda>name. name) PNone
        [(''package'', PStr ''demo''), (''update'', PBool True)]
      = Inr (struct, [(''package'', PStr ''demo''), (''update'', PBool True)]))"
proof -
  obtain struct opts' where
    h: "define_structure (\<lambda>name. name) PNone
          [(''package'', PStr ''demo''), (''update'', PBool True)] = Inr (struct, opts')"
    by (simp add: define_structure_def)
  from define_structure_ignores_previous
    [of "\<lambda>name. name" PNone "[(''package'', PStr ''demo''), (''update'', PBool True)]"
      "Dict [(''old'', PStr ''x'')]"] h
  show ?thesis by auto
qed


section \<open>The extension placeholder\<close>

text \<open>
  C8. \<^verbatim>\<open>ExternalGenerators.activate\<close> raises \<^verbatim>\<open>RuntimeError\<close> whatever it is called
  with, and never returns a value.
\<close>

theorem activate_raises:
  "activate self actions = Inl (RuntimeError ''Implemented but never called!'') \<and>
   (\<forall>r. activate self actions \<noteq> Inr r)"
  by (simp add: activate_def)

end
